theory Spec2Isabelle
  imports Main
begin

section \<open>Strings\<close>

text \<open>
  A JavaScript string is a sequence of UTF-16 code units.  The model keeps the
  code units as natural numbers, so that \<open>length\<close>, \<open>take\<close> and \<open>drop\<close> are
  the source's \<open>.length\<close> and \<open>.slice\<close>.  \<open>U\<close> turns an ASCII literal into
  such a string; a letter outside ASCII is written by its code.
\<close>

type_synonym jstring = "nat list"

definition U :: "string \<Rightarrow> jstring" where
  "U s = map of_char s"

fun startsWith :: "jstring \<Rightarrow> jstring \<Rightarrow> bool" where
  "startsWith s [] = True"
| "startsWith [] (p # ps) = False"
| "startsWith (c # cs) (p # ps) = (c = p \<and> startsWith cs ps)"

text \<open>\<open>s.includes(sub)\<close>.\<close>

fun str_includes :: "jstring \<Rightarrow> jstring \<Rightarrow> bool" where
  "str_includes [] sub = (sub = [])"
| "str_includes (c # cs) sub = (startsWith (c # cs) sub \<or> str_includes cs sub)"

text \<open>\<open>s.split(sep)\<close> for a separator of one code unit: never the empty list.\<close>

fun split_on :: "nat \<Rightarrow> jstring \<Rightarrow> jstring list" where
  "split_on sep [] = [[]]"
| "split_on sep (c # cs) =
     (if c = sep then [] # split_on sep cs
      else (case split_on sep cs of
              [] \<Rightarrow> [[c]]
            | w # ws \<Rightarrow> (c # w) # ws))"

text \<open>
  \<open>s.trim()\<close> removes the white space and line terminators of ECMAScript at
  both ends; the class \<open>\s\<close> of a regular expression is the same set.
\<close>

definition is_js_space :: "nat \<Rightarrow> bool" where
  "is_js_space c \<longleftrightarrow>
     c \<in> {9, 10, 11, 12, 13, 32, 160, 5760, 8232, 8233, 8239, 8287, 12288, 65279}
     \<or> (8192 \<le> c \<and> c \<le> 8202)"

definition trim :: "jstring \<Rightarrow> jstring" where
  "trim s = rev (dropWhile is_js_space (rev (dropWhile is_js_space s)))"

text \<open>
  \<open>s.split(/\s+/)\<close>.  The flag says that the code unit before was white space,
  so that a run of white space separates once.
\<close>

fun split_ws :: "bool \<Rightarrow> jstring \<Rightarrow> jstring list" where
  "split_ws g [] = [[]]"
| "split_ws g (c # cs) =
     (if is_js_space c then (if g then split_ws True cs else [] # split_ws True cs)
      else (case split_ws False cs of
              [] \<Rightarrow> [[c]]
            | w # ws \<Rightarrow> (c # w) # ws))"

text \<open>
  \<open>s.toLowerCase()\<close> on the code units below 256 (ASCII and Latin-1, which hold
  every letter of the month table); other code units are left as they are.
\<close>

definition lower_unit :: "nat \<Rightarrow> nat" where
  "lower_unit c =
     (if 65 \<le> c \<and> c \<le> 90 then c + 32
      else if 192 \<le> c \<and> c \<le> 222 \<and> c \<noteq> 215 then c + 32
      else c)"

definition toLowerCase :: "jstring \<Rightarrow> jstring" where
  "toLowerCase s = map lower_unit s"

text \<open>Numbers: \<open>String(n)\<close> of an integer, and \<open>parseInt(s, 10)\<close> (\<open>None\<close> is \<open>NaN\<close>).\<close>

fun show_nat :: "nat \<Rightarrow> jstring" where
  "show_nat n = (if n < 10 then [48 + n] else show_nat (n div 10) @ [48 + n mod 10])"

declare show_nat.simps [simp del]

definition show_int :: "int \<Rightarrow> jstring" where
  "show_int i = (if i < 0 then 45 # show_nat (nat (- i)) else show_nat (nat i))"

definition is_digit :: "nat \<Rightarrow> bool" where
  "is_digit c \<longleftrightarrow> 48 \<le> c \<and> c \<le> 57"

definition digits_value :: "jstring \<Rightarrow> nat" where
  "digits_value ds = foldl (\<lambda>a c. 10 * a + (c - 48)) 0 ds"

definition parseInt :: "jstring \<Rightarrow> int option" where
  "parseInt s =
     (let s1 = dropWhile is_js_space s;
          neg = (s1 \<noteq> [] \<and> hd s1 = 45);
          s2 = (if s1 \<noteq> [] \<and> (hd s1 = 45 \<or> hd s1 = 43) then tl s1 else s1);
          ds = takeWhile is_digit s2
      in if ds = [] then None
         else Some (if neg then - int (digits_value ds) else int (digits_value ds)))"

section \<open>The crawler's URL filter (scripts/crawl.ts)\<close>

definition SKIP_SLUGS :: "jstring set" where
  "SKIP_SLUGS = {U ''products'', U ''activites-du-site'', U ''membres'', U ''page-d-exemple''}"

text \<open>
  \<open>.replace(/^\/|\/$/g, "")\<close>: one slash is dropped at the start and one at the
  end of what is left.
\<close>

definition strip_slashes :: "jstring \<Rightarrow> jstring" where
  "strip_slashes p =
     (let p1 = (case p of [] \<Rightarrow> [] | c # cs \<Rightarrow> if c = 47 then cs else c # cs)
      in if p1 \<noteq> [] \<and> last p1 = 47 then butlast p1 else p1)"

text \<open>
  \<open>new URL(url).pathname\<close> belongs to the platform.  The filter takes it as the
  parameter \<open>pathname\<close>; \<open>None\<close> stands for the \<open>TypeError\<close> that the \<open>URL\<close>
  constructor throws on a string that is no absolute URL.
\<close>

definition isBlogPostUrl :: "(jstring \<Rightarrow> jstring option) \<Rightarrow> jstring \<Rightarrow> bool option" where
  "isBlogPostUrl pathname url =
     (case pathname url of
        None \<Rightarrow> None
      | Some pn \<Rightarrow>
          (let path = strip_slashes pn in
           Some (if path = [] then False
                 else if path \<in> SKIP_SLUGS then False
                 else if length (split_on 47 path) > 1 then False
                 else if str_includes url (U ''attachment_id'') then False
                 else True)))"

text \<open>
  \<open>allUrls.filter(isBlogPostUrl)\<close> in \<open>main\<close>: the order of the sitemap is kept,
  and an exception of the predicate ends the run.
\<close>

fun filterUrls :: "(jstring \<Rightarrow> jstring option) \<Rightarrow> jstring list \<Rightarrow> jstring list option" where
  "filterUrls pathname [] = Some []"
| "filterUrls pathname (u # us) =
     (case isBlogPostUrl pathname u of
        None \<Rightarrow> None
      | Some b \<Rightarrow>
          (case filterUrls pathname us of
             None \<Rightarrow> None
           | Some r \<Rightarrow> Some (if b then u # r else r)))"

text \<open>
  A model of \<open>pathname\<close> for plain \<open>scheme://host/path?query#fragment\<close> URLs, which
  need no normalisation: the path runs from the first slash after the host to
  the first \<open>?\<close> or \<open>#\<close>, and is \<open>/\<close> when the URL has none.
\<close>

fun after_scheme :: "jstring \<Rightarrow> jstring option" where
  "after_scheme (a # b # c # cs) =
     (if a = 58 \<and> b = 47 \<and> c = 47 then Some cs else after_scheme (b # c # cs))"
| "after_scheme _ = None"

definition plain_pathname :: "jstring \<Rightarrow> jstring option" where
  "plain_pathname url =
     (case after_scheme url of
        None \<Rightarrow> None
      | Some rest \<Rightarrow>
          (let p = takeWhile (\<lambda>c. c \<noteq> 63 \<and> c \<noteq> 35) (dropWhile (\<lambda>c. c \<noteq> 47 \<and> c \<noteq> 63 \<and> c \<noteq> 35) rest)
           in Some (if p = [] then [47] else p)))"

section \<open>Objects\<close>

text \<open>
  \<open>obj[key]\<close> on a plain object (an object literal, or one that \<open>JSON.parse\<close>
  made) finds an entry of the object itself, and otherwise a property that
  every object inherits from \<open>Object.prototype\<close>.  An object is the list of
  its own entries in the order of \<open>Object.entries\<close>.  An inherited property
  is a function or an object, never a string or a number: it is kept by its
  name.  \<open>None\<close> is \<open>undefined\<close>.
\<close>

definition object_prototype_keys :: "jstring list" where
  "object_prototype_keys =
     [U ''constructor'', U ''__defineGetter__'', U ''__defineSetter__'', U ''hasOwnProperty'',
      U ''__lookupGetter__'', U ''__lookupSetter__'', U ''isPrototypeOf'',
      U ''propertyIsEnumerable'', U ''toString'', U ''valueOf'', U ''__proto__'',
      U ''toLocaleString'']"

datatype 'a property = Own 'a | Inherited jstring

definition get_property :: "(jstring \<times> 'a) list \<Rightarrow> jstring \<Rightarrow> 'a property option" where
  "get_property obj key =
     (case map_of obj key of
        Some v \<Rightarrow> Some (Own v)
      | None \<Rightarrow> if key \<in> set object_prototype_keys then Some (Inherited key) else None)"

section \<open>French dates (generator)\<close>

text \<open>
  A \<open>Date\<close> is modelled by what the generator reads from it: its time value
  (\<open>getTime\<close>, milliseconds since the epoch) and the calendar fields that
  \<open>getFullYear\<close>, \<open>getMonth\<close> and \<open>getDate\<close> return.  Local time is taken
  to be UTC.  \<open>InvalidDate\<close> is the date whose time value is \<open>NaN\<close>.
\<close>

datatype jsdate = InvalidDate | ValidDate (getTime: int) (getFullYear: int) (getMonth: nat) (getDate: int)

definition is_leap :: "int \<Rightarrow> bool" where
  "is_leap y \<longleftrightarrow> y mod 4 = 0 \<and> (y mod 100 \<noteq> 0 \<or> y mod 400 = 0)"

definition days_in_month :: "int \<Rightarrow> nat \<Rightarrow> int" where
  "days_in_month y m =
     (if m = 1 then (if is_leap y then 29 else 28)
      else if m \<in> {3, 5, 8, 10} then 30 else 31)"

text \<open>\<open>DayFromYear\<close> and \<open>MakeDay\<close> of ECMAScript, for a month index in \<open>0..11\<close>.\<close>

definition DayFromYear :: "int \<Rightarrow> int" where
  "DayFromYear y =
     365 * (y - 1970) + (y - 1969) div 4 - (y - 1901) div 100 + (y - 1601) div 400"

definition days_before_month :: "int \<Rightarrow> nat \<Rightarrow> int" where
  "days_before_month y m = (\<Sum>k \<leftarrow> [0 ..< m]. days_in_month y k)"

definition MakeDay :: "int \<Rightarrow> nat \<Rightarrow> int \<Rightarrow> int" where
  "MakeDay y m d = DayFromYear y + days_before_month y m + d - 1"

definition msPerDay :: int where
  "msPerDay = 86400000"

text \<open>
  The calendar fields of a date given with a day outside its month: the day
  rolls into the months before or after.
\<close>

function roll_date :: "int \<Rightarrow> nat \<Rightarrow> int \<Rightarrow> int \<times> nat \<times> int" where
  "roll_date y m d =
     (if d < 1 then
        (let y' = (if m = 0 then y - 1 else y); m' = (if m = 0 then 11 else m - 1)
         in roll_date y' m' (d + days_in_month y' m'))
      else if d > days_in_month y m then
        (let y' = (if m \<ge> 11 then y + 1 else y); m' = (if m \<ge> 11 then 0 else m + 1)
         in roll_date y' m' (d - days_in_month y m))
      else (y, m, d))"
  by pat_completeness auto
termination
  by (relation "measure (\<lambda>(y, m, d). if d < 1 then nat (1 - d) + 31 else nat d)")
     (auto simp: days_in_month_def Let_def)

declare roll_date.simps [simp del]

text \<open>
  \<open>new Date(year, monthIndex, day)\<close>: a year from 0 to 99 means 1900 + year, and
  a time value beyond 8.64e15 ms makes the date invalid.
\<close>

definition new_Date :: "int \<Rightarrow> nat \<Rightarrow> int \<Rightarrow> jsdate" where
  "new_Date year m day =
     (let y = (if 0 \<le> year \<and> year \<le> 99 then 1900 + year else year);
          t = MakeDay y m day * msPerDay
      in if \<bar>t\<bar> > 8640000000000000 then InvalidDate
         else (case roll_date y m day of (y', m', d') \<Rightarrow> ValidDate t y' m' d'))"

definition FRENCH_MONTHS :: "(nat \<times> jstring) list" where
  "FRENCH_MONTHS =
     [(1, U ''janvier''), (2, U ''f'' @ [233] @ U ''vrier''), (3, U ''mars''),
      (4, U ''avril''), (5, U ''mai''), (6, U ''juin''), (7, U ''juillet''),
      (8, U ''ao'' @ [251] @ U ''t''), (9, U ''septembre''), (10, U ''octobre''),
      (11, U ''novembre''), (12, U ''d'' @ [233] @ U ''cembre'')]"

definition FRENCH_MONTH_TO_NUM :: "(jstring \<times> nat) list" where
  "FRENCH_MONTH_TO_NUM = map (\<lambda>(num, name). (name, num)) FRENCH_MONTHS"

text \<open>The fuzzy match: the first entry whose first three letters start \<open>monthStr\<close>.\<close>

fun fuzzy_month :: "(jstring \<times> nat) list \<Rightarrow> jstring \<Rightarrow> nat" where
  "fuzzy_month [] monthStr = 0"
| "fuzzy_month ((name, num) # es) monthStr =
     (if startsWith monthStr (take 3 name) then num else fuzzy_month es monthStr)"

definition falsy :: "int option \<Rightarrow> bool" where
  "falsy v \<longleftrightarrow> v = None \<or> v = Some 0"

text \<open>
  The month is what \<open>FRENCH_MONTH_TO_NUM[monthStr] ?? 0\<close> gives: a number of
  the table, 0, or an inherited property.  An inherited property is not 0 and
  is truthy, and \<open>month - 1\<close> is then \<open>NaN\<close>, which makes the date invalid.
\<close>

definition parseFrenchDate :: "jstring \<Rightarrow> jsdate option" where
  "parseFrenchDate dateStr =
     (if dateStr = [] then None
      else let parts = split_ws False (trim dateStr) in
        if length parts < 3 then None
        else let day = parseInt (parts ! 0);
                 monthStr = toLowerCase (parts ! 1);
                 month0 = (case get_property FRENCH_MONTH_TO_NUM monthStr of Some v \<Rightarrow> v | None \<Rightarrow> Own 0);
                 month = (if month0 = Own 0 then Own (fuzzy_month FRENCH_MONTH_TO_NUM monthStr) else month0);
                 year = parseInt (parts ! 2)
             in if falsy day \<or> month = Own 0 \<or> falsy year then None
                else (case month of
                        Own m \<Rightarrow> Some (new_Date (the year) (m - 1) (the day))
                      | Inherited k \<Rightarrow> Some InvalidDate))"

definition formatDate :: "jsdate option \<Rightarrow> jstring" where
  "formatDate dt =
     (case dt of
        None \<Rightarrow> []
      | Some InvalidDate \<Rightarrow> U ''NaN  NaN''
      | Some (ValidDate t y m d) \<Rightarrow>
          show_int d @ U '' ''
          @ (case map_of FRENCH_MONTHS (m + 1) of Some name \<Rightarrow> name | None \<Rightarrow> [])
          @ U '' '' @ show_int y)"

section \<open>HTML helpers (generator)\<close>

text \<open>\<open>str.replace(/c/g, r)\<close> for a pattern of one code unit.\<close>

definition replace_unit :: "nat \<Rightarrow> jstring \<Rightarrow> jstring \<Rightarrow> jstring" where
  "replace_unit c r s = concat (map (\<lambda>x. if x = c then r else [x]) s)"

definition escapeHtml :: "jstring \<Rightarrow> jstring" where
  "escapeHtml str =
     replace_unit 34 (U ''&quot;'')
       (replace_unit 62 (U ''&gt;'')
         (replace_unit 60 (U ''&lt;'')
           (replace_unit 38 (U ''&amp;'') str)))"

text \<open>
  \<open>str.replace(/pat/g, "")\<close> for a literal pattern: the matches are taken from
  left to right and do not overlap.  The counter is the number of code units
  of the current match still to drop.
\<close>

fun remove_all :: "jstring \<Rightarrow> nat \<Rightarrow> jstring \<Rightarrow> jstring" where
  "remove_all pat k [] = []"
| "remove_all pat (Suc k) (c # cs) = remove_all pat k cs"
| "remove_all pat 0 (c # cs) =
     (if pat \<noteq> [] \<and> startsWith (c # cs) pat then remove_all pat (length pat - 1) cs
      else c # remove_all pat 0 cs)"

text \<open>\<open>str.replace(/pat/g, rep)\<close> for a literal pattern, in the same way.\<close>

fun replace_all :: "jstring \<Rightarrow> jstring \<Rightarrow> nat \<Rightarrow> jstring \<Rightarrow> jstring" where
  "replace_all pat r k [] = []"
| "replace_all pat r (Suc k) (c # cs) = replace_all pat r k cs"
| "replace_all pat r 0 (c # cs) =
     (if pat \<noteq> [] \<and> startsWith (c # cs) pat then r @ replace_all pat r (length pat - 1) cs
      else c # replace_all pat r 0 cs)"

text \<open>\<open>parts.join(sep)\<close>.\<close>

fun join :: "jstring \<Rightarrow> jstring list \<Rightarrow> jstring" where
  "join sep [] = []"
| "join sep [x] = x"
| "join sep (x # y # ys) = x @ sep @ join sep (y # ys)"

text \<open>\<open>s.lastIndexOf(" ")\<close>, with \<open>-1\<close> when there is none.\<close>

fun lastIndexOf :: "nat \<Rightarrow> jstring \<Rightarrow> int" where
  "lastIndexOf c [] = - 1"
| "lastIndexOf c (x # xs) =
     (let r = lastIndexOf c xs in
      if r \<ge> 0 then r + 1 else if x = c then 0 else - 1)"

definition more_marker :: jstring where
  "more_marker = U ''Continuer la lecture '' @ [8594]"

section \<open>The document tree (node-html-parser)\<close>

text \<open>
  An element keeps the text of its attributes as the source wrote it
  (\<open>rawAttrs\<close>) and the attributes read from that text (\<open>rawAttributes\<close>):
  the names in source order, each with its value as written, without the
  quotes; a bare name has the empty value.
\<close>

record attrs =
  rawAttrs :: jstring
  rawAttributes :: "(jstring \<times> jstring) list"

text \<open>
  A node is a text node with its raw text, or an element with its tag name in
  lower case, its attributes and its child nodes.  The number of an element is
  its identity as an object: the loops of the generator hold on to elements
  while they change the tree around them.
\<close>

datatype node = Text jstring | Element nat jstring attrs "node list"

fun node_id :: "node \<Rightarrow> nat option" where
  "node_id (Text t) = None"
| "node_id (Element i tag as ks) = Some i"

fun tag_of :: "node \<Rightarrow> jstring" where
  "tag_of (Text t) = []"
| "tag_of (Element i tag as ks) = tag"

fun attrs_of :: "node \<Rightarrow> attrs" where
  "attrs_of (Text t) = \<lparr>rawAttrs = [], rawAttributes = []\<rparr>"
| "attrs_of (Element i tag as ks) = as"

fun childNodes :: "node \<Rightarrow> node list" where
  "childNodes (Text t) = []"
| "childNodes (Element i tag as ks) = ks"

text \<open>
  \<open>el.getAttribute(name) ?? ""\<close>.  The library reads the attribute from a
  table that it fills in source order with the names in lower case and the
  values decoded, a later name replacing an earlier one.  Decoding character
  references belongs to the library and is the parameter \<open>decode\<close>.
\<close>

definition getAttribute :: "(jstring \<Rightarrow> jstring) \<Rightarrow> jstring \<Rightarrow> node \<Rightarrow> jstring" where
  "getAttribute decode name n =
     (case map_of (rev (map (\<lambda>(k, v). (toLowerCase k, decode v)) (rawAttributes (attrs_of n))))
             (toLowerCase name) of
        Some v \<Rightarrow> v
      | None \<Rightarrow> [])"

text \<open>The parser creates a fresh object for every element: numbering in document order.\<close>

fun number_nodes :: "nat \<Rightarrow> node list \<Rightarrow> node list \<times> nat" where
  "number_nodes k [] = ([], k)"
| "number_nodes k (Text t # ns) =
     (case number_nodes k ns of (ns', k') \<Rightarrow> (Text t # ns', k'))"
| "number_nodes k (Element i tag as ks # ns) =
     (case number_nodes (k + 1) ks of (ks', k1) \<Rightarrow>
        (case number_nodes k1 ns of (ns', k2) \<Rightarrow> (Element k tag as ks' # ns', k2)))"

text \<open>All elements below a list of nodes, in document order.\<close>

fun elements :: "node list \<Rightarrow> node list" where
  "elements [] = []"
| "elements (Text t # ns) = elements ns"
| "elements (Element i tag as ks # ns) = Element i tag as ks # elements ks @ elements ns"

text \<open>\<open>querySelectorAll\<close> and \<open>querySelector\<close> for a selector given as a predicate.\<close>

definition querySelectorAll :: "(node \<Rightarrow> bool) \<Rightarrow> node list \<Rightarrow> node list" where
  "querySelectorAll sel ns = filter sel (elements ns)"

definition querySelector :: "(node \<Rightarrow> bool) \<Rightarrow> node list \<Rightarrow> node option" where
  "querySelector sel ns = (case querySelectorAll sel ns of [] \<Rightarrow> None | n # _ \<Rightarrow> Some n)"

definition has_tag :: "jstring \<Rightarrow> node \<Rightarrow> bool" where
  "has_tag t n \<longleftrightarrow> node_id n \<noteq> None \<and> tag_of n = t"

definition has_class :: "(jstring \<Rightarrow> jstring) \<Rightarrow> jstring \<Rightarrow> node \<Rightarrow> bool" where
  "has_class decode c n \<longleftrightarrow> c \<in> set (split_ws False (getAttribute decode (U ''class'') n))"

text \<open>
  \<open>el.text\<close> is the decoded raw text; the raw text of an element is that of its
  children, and a line feed for \<open>br\<close>.
\<close>

fun rawText :: "node \<Rightarrow> jstring" where
  "rawText (Text t) = t"
| "rawText (Element i tag as ks) =
     (if tag = U ''br'' then [10] else concat (map rawText ks))"

definition text_of :: "(jstring \<Rightarrow> jstring) \<Rightarrow> node \<Rightarrow> jstring" where
  "text_of decode n = decode (rawText n)"

text \<open>
  Serialisation.  An element prints the text of its attributes as it holds it;
  a void element has no end tag.
\<close>

definition void_tags :: "jstring set" where
  "void_tags = {U ''area'', U ''base'', U ''br'', U ''col'', U ''embed'', U ''hr'', U ''img'',
     U ''input'', U ''link'', U ''meta'', U ''param'', U ''source'', U ''track'', U ''wbr''}"

fun outerHTML :: "node \<Rightarrow> jstring" where
  "outerHTML (Text t) = t"
| "outerHTML (Element i tag as ks) =
     [60] @ tag @ (if rawAttrs as = [] then [] else [32] @ rawAttrs as) @ [62]
     @ (if tag \<in> void_tags then [] else concat (map outerHTML ks) @ [60, 47] @ tag @ [62])"

definition innerHTML :: "node list \<Rightarrow> jstring" where
  "innerHTML ks = concat (map outerHTML ks)"

subsection \<open>The tree under mutation\<close>

text \<open>
  \<open>attached\<close> holds the child nodes of the root.  An element that was removed
  keeps its subtree and stays reachable from the variables that hold it:
  \<open>detached\<close> holds these subtrees, each with a top that has no parent.
\<close>

record dom =
  attached :: "node list"
  detached :: "node list"

fun find_node :: "nat \<Rightarrow> node list \<Rightarrow> node option" where
  "find_node i [] = None"
| "find_node i (Text t # ns) = find_node i ns"
| "find_node i (Element j tag as ks # ns) =
     (if i = j then Some (Element j tag as ks)
      else (case find_node i ks of Some n \<Rightarrow> Some n | None \<Rightarrow> find_node i ns))"

definition lookup :: "dom \<Rightarrow> nat \<Rightarrow> node option" where
  "lookup st i =
     (case find_node i (attached st) of Some n \<Rightarrow> Some n | None \<Rightarrow> find_node i (detached st))"

text \<open>The element and its ancestors, nearest first.\<close>

fun path_to :: "nat \<Rightarrow> node list \<Rightarrow> node list option" where
  "path_to i [] = None"
| "path_to i (Text t # ns) = path_to i ns"
| "path_to i (Element j tag as ks # ns) =
     (if i = j then Some [Element j tag as ks]
      else (case path_to i ks of
              Some p \<Rightarrow> Some (p @ [Element j tag as ks])
            | None \<Rightarrow> path_to i ns))"

text \<open>
  \<open>el.closest(tag)\<close>: the nearest of the element and its ancestors with that
  tag.  The library tests an element as a child of its parent, so the top of a
  detached subtree, which has no parent, is never the result; in the tree of
  the root every element has a parent.
\<close>

definition ancestry :: "dom \<Rightarrow> nat \<Rightarrow> node list" where
  "ancestry st i =
     (case path_to i (attached st) of
        Some p \<Rightarrow> p
      | None \<Rightarrow> (case path_to i (detached st) of Some p \<Rightarrow> butlast p | None \<Rightarrow> []))"

definition closest :: "jstring \<Rightarrow> dom \<Rightarrow> nat \<Rightarrow> node option" where
  "closest t st i = (case filter (has_tag t) (ancestry st i) of [] \<Rightarrow> None | n # _ \<Rightarrow> Some n)"

fun remove_elem :: "nat \<Rightarrow> node list \<Rightarrow> node list" where
  "remove_elem i [] = []"
| "remove_elem i (Text t # ns) = Text t # remove_elem i ns"
| "remove_elem i (Element j tag as ks # ns) =
     (if i = j then remove_elem i ns
      else Element j tag as (remove_elem i ks) # remove_elem i ns)"

fun replace_elem :: "nat \<Rightarrow> node \<Rightarrow> node list \<Rightarrow> node list" where
  "replace_elem i new [] = []"
| "replace_elem i new (Text t # ns) = Text t # replace_elem i new ns"
| "replace_elem i new (Element j tag as ks # ns) =
     (if i = j then new # ns
      else Element j tag as (replace_elem i new ks) # replace_elem i new ns)"

fun update_attrs :: "nat \<Rightarrow> (attrs \<Rightarrow> attrs) \<Rightarrow> node list \<Rightarrow> node list" where
  "update_attrs i f [] = []"
| "update_attrs i f (Text t # ns) = Text t # update_attrs i f ns"
| "update_attrs i f (Element j tag as ks # ns) =
     (if i = j then Element j tag (f as) ks # ns
      else Element j tag as (update_attrs i f ks) # update_attrs i f ns)"

definition is_top :: "nat \<Rightarrow> node list \<Rightarrow> bool" where
  "is_top i ns \<longleftrightarrow> Some i \<in> set (map node_id ns)"

text \<open>
  \<open>el.remove()\<close>: the element leaves the child nodes of its parent; without a
  parent nothing happens.
\<close>

definition remove :: "nat \<Rightarrow> dom \<Rightarrow> dom" where
  "remove i st =
     (case find_node i (attached st) of
        Some n \<Rightarrow> \<lparr>attached = remove_elem i (attached st), detached = detached st @ [n]\<rparr>
      | None \<Rightarrow>
          (if is_top i (detached st) then st
           else (case find_node i (detached st) of
                   Some n \<Rightarrow> st\<lparr>detached := remove_elem i (detached st) @ [n]\<rparr>
                 | None \<Rightarrow> st)))"

section \<open>Image resolution (generator)\<close>

text \<open>\<open>str.replace(pat, rep)\<close> for a literal pattern: the first occurrence only.\<close>

fun replace_first :: "jstring \<Rightarrow> jstring \<Rightarrow> jstring \<Rightarrow> jstring" where
  "replace_first pat rep [] = []"
| "replace_first pat rep (c # cs) =
     (if startsWith (c # cs) pat then rep @ drop (length pat) (c # cs)
      else c # replace_first pat rep cs)"

text \<open>The class \<open>\w\<close>: letters, digits and the underscore of ASCII.\<close>

definition is_word :: "nat \<Rightarrow> bool" where
  "is_word c \<longleftrightarrow> (48 \<le> c \<and> c \<le> 57) \<or> (65 \<le> c \<and> c \<le> 90) \<or> (97 \<le> c \<and> c \<le> 122) \<or> c = 95"

text \<open>
  \<open>str.replace(/-\d+x\d+(\.\w+)$/, "$1")\<close>.  \<open>size_tail s\<close> matches
  \<open>\d+x\d+(\.\w+)$\<close> against the whole of \<open>s\<close> and gives the group.
\<close>

definition size_tail :: "jstring \<Rightarrow> jstring option" where
  "size_tail s =
     (let w = takeWhile is_digit s; r1 = dropWhile is_digit s in
      if w = [] then None
      else (case r1 of
              [] \<Rightarrow> None
            | x # r2 \<Rightarrow>
                if x \<noteq> 120 then None
                else (let h = takeWhile is_digit r2; r3 = dropWhile is_digit r2 in
                      if h = [] then None
                      else (case r3 of
                              [] \<Rightarrow> None
                            | dot # ext \<Rightarrow>
                                if dot = 46 \<and> ext \<noteq> [] \<and> list_all is_word ext
                                then Some (dot # ext) else None))))"

fun strip_size_suffix :: "jstring \<Rightarrow> jstring" where
  "strip_size_suffix [] = []"
| "strip_size_suffix (c # cs) =
     (if c = 45 then (case size_tail cs of Some ext \<Rightarrow> ext | None \<Rightarrow> c # strip_size_suffix cs)
      else c # strip_size_suffix cs)"

text \<open>\<open>basename\<close> of \<open>node:path\<close> (POSIX): trailing slashes are dropped, then the part after the last slash is taken.\<close>

definition basename :: "jstring \<Rightarrow> jstring" where
  "basename p = rev (takeWhile (\<lambda>c. c \<noteq> 47) (dropWhile (\<lambda>c. c = 47) (rev p)))"

text \<open>\<open>str.split("?")[0]\<close>.\<close>

definition before_query :: "jstring \<Rightarrow> jstring" where
  "before_query s = takeWhile (\<lambda>c. c \<noteq> 63) s"

text \<open>
  \<open>imageMap[key]\<close> where the source tests it for truth: a missing key and an
  empty file name both fail, an inherited property passes.
\<close>

definition truthy_lookup :: "(jstring \<times> jstring) list \<Rightarrow> jstring \<Rightarrow> jstring property option" where
  "truthy_lookup imageMap key =
     (case get_property imageMap key of
        None \<Rightarrow> None
      | Some v \<Rightarrow> if v = Own [] then None else Some v)"

text \<open>\<open>filename.replace(/[^\w\-_.]/g, "_")\<close>.\<close>

definition clean_name :: "jstring \<Rightarrow> jstring" where
  "clean_name f = map (\<lambda>c. if is_word c \<or> c = 45 \<or> c = 95 \<or> c = 46 then c else 95) f"

text \<open>
  The image map is the object of the data file, as the list of its entries in
  the order of \<open>Object.entries\<close>.  \<open>exists_image name\<close> is
  \<open>existsSync(join(IMAGES_DIR, name))\<close>: the state of the output images directory.
\<close>

definition findLocalImage :: "(jstring \<Rightarrow> bool) \<Rightarrow> jstring \<Rightarrow> (jstring \<times> jstring) list \<Rightarrow> jstring property option" where
  "findLocalImage exists_image url imageMap =
     (let normalized = replace_first (U ''http://'') (U ''https://'') url in
      case truthy_lookup imageMap normalized of
        Some v \<Rightarrow> Some v
      | None \<Rightarrow>
          (let baseUrl = strip_size_suffix normalized in
           case truthy_lookup imageMap baseUrl of
             Some v \<Rightarrow> Some v
           | None \<Rightarrow>
               (let filename = basename (before_query url) in
                case find (\<lambda>(key, val). basename (before_query key) = filename) imageMap of
                  Some (key, val) \<Rightarrow> Some (Own val)
                | None \<Rightarrow>
                    (let cleanFilename = clean_name filename in
                     if exists_image cleanFilename then Some (Own cleanFilename) else None))))"

section \<open>Content cleaning (generator)\<close>

definition ids :: "node list \<Rightarrow> nat list" where
  "ids ns = List.map_filter node_id ns"

definition blank :: "jstring \<Rightarrow> bool" where
  "blank s \<longleftrightarrow> trim s = []"

text \<open>A loop \<open>for (const el of list) if (cond(el)) el.remove()\<close> over a list taken before.\<close>

fun remove_where :: "(node \<Rightarrow> bool) \<Rightarrow> nat list \<Rightarrow> dom \<Rightarrow> dom" where
  "remove_where cond [] st = st"
| "remove_where cond (i # is) st =
     remove_where cond is
       (case lookup st i of
          Some el \<Rightarrow> if cond el then remove i st else st
        | None \<Rightarrow> st)"

definition is_share :: "(jstring \<Rightarrow> jstring) \<Rightarrow> node \<Rightarrow> bool" where
  "is_share decode el \<longleftrightarrow>
     (let cls = getAttribute decode (U ''class'') el in
      str_includes cls (U ''a2a'') \<or> str_includes cls (U ''addtoany'') \<or> str_includes cls (U ''sharedaddy''))"

definition is_empty_block :: "(jstring \<Rightarrow> jstring) \<Rightarrow> node \<Rightarrow> bool" where
  "is_empty_block decode el \<longleftrightarrow>
     blank (text_of decode el) \<and> querySelector (has_tag (U ''img'')) (childNodes el) = None"

text \<open>
  \<open>JSON.stringify\<close> of a string: the quotation mark, the backslash and the
  control characters are escaped, and so is a surrogate without its partner.
\<close>

definition hex_digit :: "nat \<Rightarrow> nat" where
  "hex_digit d = (if d < 10 then 48 + d else 87 + d)"

definition json_unit :: "nat \<Rightarrow> jstring" where
  "json_unit c =
     (if c = 34 then [92, 34] else if c = 92 then [92, 92]
      else if c = 8 then [92, 98] else if c = 9 then [92, 116] else if c = 10 then [92, 110]
      else if c = 12 then [92, 102] else if c = 13 then [92, 114]
      else if c < 32 \<or> (55296 \<le> c \<and> c \<le> 57343)
      then [92, 117, hex_digit (c div 4096 mod 16), hex_digit (c div 256 mod 16),
            hex_digit (c div 16 mod 16), hex_digit (c mod 16)]
      else [c])"

fun json_units :: "jstring \<Rightarrow> jstring" where
  "json_units [] = []"
| "json_units [c] = json_unit c"
| "json_units (c # d # cs) =
     (if 55296 \<le> c \<and> c \<le> 56319 \<and> 56320 \<le> d \<and> d \<le> 57343 then c # d # json_units cs
      else json_unit c @ json_units (d # cs))"

definition JSON_stringify :: "jstring \<Rightarrow> jstring" where
  "JSON_stringify s = [34] @ json_units s @ [34]"

text \<open>
  The library's \<open>quoteAttribute\<close>:
  \<open>JSON.stringify(attr.replace(/"/g, "&quot;"))\<close>, then backslash-t,
  backslash-n and backslash-r become the control characters again, then every
  backslash is dropped.
\<close>

definition quoteAttribute :: "jstring \<Rightarrow> jstring" where
  "quoteAttribute attr =
     filter (\<lambda>c. c \<noteq> 92)
       (replace_all [92, 114] [13] 0
         (replace_all [92, 110] [10] 0
           (replace_all [92, 116] [9] 0
             (JSON_stringify (replace_unit 34 (U ''&quot;'') attr)))))"

text \<open>
  The text of the attributes that the library writes anew after
  \<open>setAttribute\<close> and \<open>removeAttribute\<close>: \<open>name="value"\<close>, the bare name for
  an empty value, joined by spaces.
\<close>

definition attrs_text :: "(jstring \<times> jstring) list \<Rightarrow> jstring" where
  "attrs_text kvs =
     join [32] (map (\<lambda>(name, val). if val = [] then name else name @ [61] @ quoteAttribute val) kvs)"

text \<open>
  \<open>el.setAttribute(key, value)\<close> writes to the first attribute whose name is
  \<open>key\<close> up to case, and adds the attribute when there is none;
  \<open>el.removeAttribute(key)\<close> deletes the attribute of that very name.
\<close>

definition setAttribute :: "jstring \<Rightarrow> jstring \<Rightarrow> attrs \<Rightarrow> attrs" where
  "setAttribute key v as =
     (let kvs = rawAttributes as;
          kvs' = (case find (\<lambda>k. toLowerCase k = toLowerCase key) (map fst kvs) of
                    Some k \<Rightarrow> map (\<lambda>(k', v'). if k' = k then (k', v) else (k', v')) kvs
                  | None \<Rightarrow> kvs @ [(key, v)])
      in \<lparr>rawAttrs = attrs_text kvs', rawAttributes = kvs'\<rparr>)"

definition removeAttribute :: "jstring \<Rightarrow> attrs \<Rightarrow> attrs" where
  "removeAttribute key as =
     (let kvs' = filter (\<lambda>(k', v'). k' \<noteq> key) (rawAttributes as)
      in \<lparr>rawAttrs = attrs_text kvs', rawAttributes = kvs'\<rparr>)"

definition update_node :: "nat \<Rightarrow> (attrs \<Rightarrow> attrs) \<Rightarrow> dom \<Rightarrow> dom" where
  "update_node i f st =
     (case find_node i (attached st) of
        Some n \<Rightarrow> st\<lparr>attached := update_attrs i f (attached st)\<rparr>
      | None \<Rightarrow> st\<lparr>detached := update_attrs i f (detached st)\<rparr>)"

text \<open>\<open>/\.(jpg|jpeg|png|gif)$/i.test(href)\<close>.\<close>

definition endsWith :: "jstring \<Rightarrow> jstring \<Rightarrow> bool" where
  "endsWith s suf = startsWith (rev s) (rev suf)"

definition lower_ascii :: "nat \<Rightarrow> nat" where
  "lower_ascii c = (if 65 \<le> c \<and> c \<le> 90 then c + 32 else c)"

definition is_image_href :: "jstring \<Rightarrow> bool" where
  "is_image_href href \<longleftrightarrow>
     (let h = map lower_ascii href in
      endsWith h (U ''.jpg'') \<or> endsWith h (U ''.jpeg'') \<or> endsWith h (U ''.png'') \<or> endsWith h (U ''.gif''))"

text \<open>
  \<open>parentA.replaceWith(img)\<close>, for an image below the anchor: the image leaves
  the anchor and takes the anchor's place among the children of the anchor's
  parent; the anchor, with what it still holds, is detached.  All of this
  happens in the tree that holds the image.  The library reads the child nodes
  of the parent first, so on an anchor without parent the call throws:
  \<open>None\<close>.
\<close>

definition replaceWith :: "nat \<Rightarrow> node \<Rightarrow> dom \<Rightarrow> dom option" where
  "replaceWith a img st =
     (let i = the (node_id img); rest = (\<lambda>an. remove_elem i [an]) in
      if find_node i (attached st) \<noteq> None then
        (case find_node a (attached st) of
           Some an \<Rightarrow> Some \<lparr>attached = replace_elem a img (attached st), detached = detached st @ rest an\<rparr>
         | None \<Rightarrow> Some st)
      else if is_top a (detached st) then None
      else (case find_node a (detached st) of
              Some an \<Rightarrow> Some (st\<lparr>detached := replace_elem a img (detached st) @ rest an\<rparr>)
            | None \<Rightarrow> Some st))"

definition wp_attributes :: "jstring list" where
  "wp_attributes = [U ''srcset'', U ''sizes'', U ''class'', U ''width'', U ''height'']"

text \<open>
  The image gone: its nearest figure is removed, else its nearest anchor, else
  the image itself.
\<close>

definition remove_image :: "nat \<Rightarrow> dom \<Rightarrow> dom" where
  "remove_image i st =
     (case closest (U ''figure'') st i of
        Some parentFig \<Rightarrow> remove (the (node_id parentFig)) st
      | None \<Rightarrow>
          (case closest (U ''a'') st i of
             Some parentA \<Rightarrow> remove (the (node_id parentA)) st
           | None \<Rightarrow> remove i st))"

text \<open>
  \<open>`/images/${localFile}`\<close>: a file name is taken as it is; the text of an
  inherited property (the source text of a native function, or
  \<open>[object Object]\<close>) is the engine's, the parameter \<open>native\<close>.
\<close>

definition property_text :: "(jstring \<Rightarrow> jstring) \<Rightarrow> jstring property \<Rightarrow> jstring" where
  "property_text native v = (case v of Own s \<Rightarrow> s | Inherited k \<Rightarrow> native k)"

text \<open>The body of the loop over the images.\<close>

definition fix_image ::
  "(jstring \<Rightarrow> jstring) \<Rightarrow> (jstring \<Rightarrow> jstring) \<Rightarrow> (jstring \<Rightarrow> bool) \<Rightarrow> (jstring \<times> jstring) list \<Rightarrow>
   nat \<Rightarrow> dom \<Rightarrow> dom option" where
  "fix_image decode native exists_image imageMap i st =
     (case lookup st i of
        None \<Rightarrow> Some st
      | Some img \<Rightarrow>
          (let src = getAttribute decode (U ''src'') img in
           if src = [] then Some st
           else (case findLocalImage exists_image src imageMap of
                   None \<Rightarrow> Some (remove_image i st)
                 | Some localFile \<Rightarrow>
                     if localFile = Own [] then Some (remove_image i st)
                     else
                       (let st1 = update_node i
                                    (setAttribute (U ''src'') (U ''/images/'' @ property_text native localFile)) st;
                            st2 = fold (\<lambda>attr. update_node i (removeAttribute attr)) wp_attributes st1
                        in case closest (U ''a'') st2 i of
                             None \<Rightarrow> Some st2
                           | Some parentA \<Rightarrow>
                               if is_image_href (getAttribute decode (U ''href'') parentA)
                               then replaceWith (the (node_id parentA)) (the (lookup st2 i)) st2
                               else Some st2))))"

fun fix_images ::
  "(jstring \<Rightarrow> jstring) \<Rightarrow> (jstring \<Rightarrow> jstring) \<Rightarrow> (jstring \<Rightarrow> bool) \<Rightarrow> (jstring \<times> jstring) list \<Rightarrow>
   nat list \<Rightarrow> dom \<Rightarrow> dom option" where
  "fix_images decode native exists_image imageMap [] st = Some st"
| "fix_images decode native exists_image imageMap (i # is) st =
     (case fix_image decode native exists_image imageMap i st of
        None \<Rightarrow> None
      | Some st' \<Rightarrow> fix_images decode native exists_image imageMap is st')"

text \<open>The loop over the figures: an empty first caption is removed.\<close>

fun remove_empty_captions :: "(jstring \<Rightarrow> jstring) \<Rightarrow> nat list \<Rightarrow> dom \<Rightarrow> dom" where
  "remove_empty_captions decode [] st = st"
| "remove_empty_captions decode (i # is) st =
     remove_empty_captions decode is
       (case lookup st i of
          None \<Rightarrow> st
        | Some fig \<Rightarrow>
            (case querySelector (has_tag (U ''figcaption'')) (childNodes fig) of
               None \<Rightarrow> st
             | Some cap \<Rightarrow>
                 if blank (text_of decode cap) then remove (the (node_id cap)) st else st))"

text \<open>
  The substitutions on the serialised markup.  \<open>empty_block_match tag br s\<close> is
  the length of the match of \<open><tag>\s*</tag>\<close>, or with \<open>br\<close> of
  \<open><tag>\s*<br\s*\/?>\s*</tag>\<close>, at the start of \<open>s\<close>.
\<close>

definition empty_block_match :: "jstring \<Rightarrow> bool \<Rightarrow> jstring \<Rightarrow> nat option" where
  "empty_block_match tag br s =
     (let open = [60] @ tag @ [62]; close = [60, 47] @ tag @ [62] in
      if \<not> startsWith s open then None
      else
        (let r1 = dropWhile is_js_space (drop (length open) s);
             r2 = (if \<not> br then Some r1
                   else if \<not> startsWith r1 (U ''<br'') then None
                   else (let r3 = dropWhile is_js_space (drop 3 r1);
                             r4 = (if startsWith r3 [47] then drop 1 r3 else r3)
                         in if startsWith r4 [62] then Some (dropWhile is_js_space (drop 1 r4))
                            else None))
         in case r2 of
              None \<Rightarrow> None
            | Some r \<Rightarrow>
                if startsWith r close then Some (length s - length r + length close) else None))"

text \<open>\<open>str.replace(re, "")\<close> with the flag \<open>g\<close>, for a matcher that gives the length of the match.\<close>

fun delete_matches :: "(jstring \<Rightarrow> nat option) \<Rightarrow> nat \<Rightarrow> jstring \<Rightarrow> jstring" where
  "delete_matches m k [] = []"
| "delete_matches m (Suc k) (c # cs) = delete_matches m k cs"
| "delete_matches m 0 (c # cs) =
     (case m (c # cs) of
        None \<Rightarrow> c # delete_matches m 0 cs
      | Some n \<Rightarrow> if n = 0 then c # delete_matches m 0 cs else delete_matches m (n - 1) cs)"

text \<open>\<open>str.replace(/\n{3,}/g, "\n\n")\<close>; the counter is the length of the run of line feeds read.\<close>

fun collapse_newlines :: "nat \<Rightarrow> jstring \<Rightarrow> jstring" where
  "collapse_newlines k [] = replicate (min k 2) 10"
| "collapse_newlines k (c # cs) =
     (if c = 10 then collapse_newlines (Suc k) cs
      else replicate (min k 2) 10 @ c # collapse_newlines 0 cs)"

definition clean_up :: "jstring \<Rightarrow> jstring" where
  "clean_up innerHtml =
     collapse_newlines 0
       (delete_matches (empty_block_match (U ''div'') False) 0
         (delete_matches (empty_block_match (U ''div'') True) 0
           (delete_matches (empty_block_match (U ''p'') False) 0
             (delete_matches (empty_block_match (U ''p'') True) 0 innerHtml))))"

definition is_entry_content :: "(jstring \<Rightarrow> jstring) \<Rightarrow> node \<Rightarrow> bool" where
  "is_entry_content decode n \<longleftrightarrow> has_tag (U ''div'') n \<and> has_class decode (U ''entry-content'') n"

definition is_more_link :: "(jstring \<Rightarrow> jstring) \<Rightarrow> node \<Rightarrow> bool" where
  "is_more_link decode n \<longleftrightarrow> has_tag (U ''a'') n \<and> has_class decode (U ''more-link'') n"

text \<open>
  The passes on the tree, from the child nodes of the root to the tree that is
  serialised.  \<open>parse\<close> is the library's parser, giving the child nodes of the
  root.  \<open>None\<close> is an exception.
\<close>

definition clean_tree ::
  "(jstring \<Rightarrow> jstring) \<Rightarrow> (jstring \<Rightarrow> jstring) \<Rightarrow> (jstring \<Rightarrow> bool) \<Rightarrow> (jstring \<times> jstring) list \<Rightarrow>
   node list \<Rightarrow> dom option" where
  "clean_tree decode native exists_image imageMap root =
     (let st0 = \<lparr>attached = root, detached = []\<rparr>;
          st1 = remove_where (is_share decode)
                  (ids (querySelectorAll (\<lambda>n. has_tag (U ''div'') n \<or> has_tag (U ''span'') n) (attached st0))) st0;
          st2 = remove_where (\<lambda>el. True) (ids (querySelectorAll (is_more_link decode) (attached st1))) st1;
          st3 = remove_where (is_empty_block decode)
                  (ids (querySelectorAll (\<lambda>n. has_tag (U ''p'') n \<or> has_tag (U ''div'') n) (attached st2))) st2
      in case fix_images decode native exists_image imageMap (ids (querySelectorAll (has_tag (U ''img'')) (attached st3))) st3 of
           None \<Rightarrow> None
         | Some st4 \<Rightarrow>
             Some (remove_empty_captions decode
                     (ids (querySelectorAll (has_tag (U ''figure'')) (attached st4))) st4))"

definition cleanContentHtml ::
  "(jstring \<Rightarrow> node list) \<Rightarrow> (jstring \<Rightarrow> jstring) \<Rightarrow> (jstring \<Rightarrow> jstring) \<Rightarrow> (jstring \<Rightarrow> bool) \<Rightarrow>
   jstring \<Rightarrow> (jstring \<times> jstring) list \<Rightarrow> jstring option" where
  "cleanContentHtml parse decode native exists_image htmlStr imageMap =
     (if htmlStr = [] then Some []
      else
        (let root0 = fst (number_nodes 1 (parse htmlStr));
             root = (case querySelector (is_entry_content decode) root0 of
                       Some w \<Rightarrow> fst (number_nodes 1 (parse (outerHTML w)))
                     | None \<Rightarrow> root0);
             wrapper = (case querySelector (is_entry_content decode) root0 of
                          Some w \<Rightarrow> querySelector (is_entry_content decode) root
                        | None \<Rightarrow> None)
         in case clean_tree decode native exists_image imageMap root of
              None \<Rightarrow> None
            | Some st \<Rightarrow>
                (let innerHtml =
                       (case wrapper of
                          Some w \<Rightarrow>
                            (case lookup st (the (node_id w)) of
                               Some n \<Rightarrow> innerHTML (childNodes n)
                             | None \<Rightarrow> [])
                        | None \<Rightarrow> innerHTML (attached st))
                 in Some (trim (clean_up innerHtml)))))"

text \<open>\<open>getExcerpt\<close>: the text of the whole document, cut at a space.\<close>

definition getExcerpt :: "(jstring \<Rightarrow> node list) \<Rightarrow> (jstring \<Rightarrow> jstring) \<Rightarrow> jstring \<Rightarrow> nat \<Rightarrow> jstring" where
  "getExcerpt parse decode html maxLength =
     (let text0 = trim (remove_all more_marker 0 (decode (concat (map rawText (parse html)))));
          cut = lastIndexOf 32 (take maxLength text0)
      in if length text0 > maxLength
         then take (if cut > 0 then nat cut else maxLength) text0 @ U ''...''
         else text0)"

text \<open>
  A model of the parser on well-formed fragments: tags that nest properly,
  attribute values in double quotes or without quotes, no comments.
\<close>

datatype token = TText jstring | TOpen jstring attrs | TClose jstring

text \<open>
  The attributes inside a tag.  Modes: 0 before a name, 1 in a name, 2 after
  \<open>=\<close>, 3 in a quoted value, 4 in a bare value.
\<close>

fun tag_attrs :: "nat \<Rightarrow> jstring \<Rightarrow> jstring \<Rightarrow> jstring \<Rightarrow> (jstring \<times> jstring) list" where
  "tag_attrs mode name val [] =
     (if mode = 1 \<or> mode = 2 \<or> mode = 4 then [(rev name, rev val)] else [])"
| "tag_attrs mode name val (c # cs) =
     (if mode = 0 then
        (if is_js_space c \<or> c = 47 then tag_attrs 0 [] [] cs else tag_attrs 1 [c] [] cs)
      else if mode = 1 then
        (if c = 61 then tag_attrs 2 name [] cs
         else if is_js_space c then (rev name, []) # tag_attrs 0 [] [] cs
         else tag_attrs 1 (c # name) [] cs)
      else if mode = 2 then
        (if c = 34 then tag_attrs 3 name [] cs
         else if is_js_space c then (rev name, []) # tag_attrs 0 [] [] cs
         else tag_attrs 4 name [c] cs)
      else if mode = 3 then
        (if c = 34 then (rev name, rev val) # tag_attrs 0 [] [] cs
         else tag_attrs 3 name (c # val) cs)
      else
        (if is_js_space c then (rev name, rev val) # tag_attrs 0 [] [] cs
         else tag_attrs 4 name (c # val) cs))"

text \<open>
  The text of the attributes inside a tag: what follows the tag name, without
  the slash and the white space at the end and without the first code unit,
  the white space after the name.
\<close>

definition tag_raw :: "jstring \<Rightarrow> jstring" where
  "tag_raw rest =
     (let r1 = (if rest \<noteq> [] \<and> last rest = 47 then butlast rest else rest)
      in drop 1 (rev (dropWhile is_js_space (rev r1))))"

definition tag_token :: "jstring \<Rightarrow> token" where
  "tag_token s =
     (case s of
        [] \<Rightarrow> TText [60, 62]
      | c # cs \<Rightarrow>
          if c = 47 then TClose (map lower_ascii (takeWhile (\<lambda>x. \<not> is_js_space x) cs))
          else (let name = takeWhile (\<lambda>x. \<not> is_js_space x \<and> x \<noteq> 47) s;
                    rest = drop (length name) s
                in TOpen (map lower_ascii name)
                     \<lparr>rawAttrs = tag_raw rest, rawAttributes = tag_attrs 0 [] [] rest\<rparr>))"

fun tokens :: "bool \<Rightarrow> bool \<Rightarrow> jstring \<Rightarrow> jstring \<Rightarrow> token list" where
  "tokens in_tag in_quote buf [] = (if buf = [] \<or> in_tag then [] else [TText (rev buf)])"
| "tokens in_tag in_quote buf (c # cs) =
     (if in_tag then
        (if c = 62 \<and> \<not> in_quote then tag_token (rev buf) # tokens False False [] cs
         else tokens True (if c = 34 then \<not> in_quote else in_quote) (c # buf) cs)
      else
        (if c = 60 then (if buf = [] then [] else [TText (rev buf)]) @ tokens True False [] cs
         else tokens False False (c # buf) cs))"

text \<open>
  The tree of the tokens: \<open>stack\<close> holds the open elements, each with the
  siblings read before it, and \<open>cur\<close> the children of the innermost one,
  both in reverse.
\<close>

fun build :: "(jstring \<times> attrs \<times> node list) list \<Rightarrow> node list \<Rightarrow> token list \<Rightarrow> node list" where
  "build [] cur [] = rev cur"
| "build ((tag, as, saved) # stack) cur [] = build stack (Element 0 tag as (rev cur) # saved) []"
| "build stack cur (TText t # ts) = build stack (Text t # cur) ts"
| "build stack cur (TOpen tag as # ts) =
     (if tag \<in> void_tags then build stack (Element 0 tag as [] # cur) ts
      else build ((tag, as, cur) # stack) [] ts)"
| "build [] cur (TClose name # ts) = build [] cur ts"
| "build ((tag, as, saved) # stack) cur (TClose name # ts) =
     build stack (Element 0 tag as (rev cur) # saved) ts"

definition parse_plain :: "jstring \<Rightarrow> node list" where
  "parse_plain html = build [] [] (tokens False False [] html)"

section \<open>Pages (generator)\<close>

record comment =
  author :: jstring
  comment_text :: jstring

text \<open>
  A post of the data file; \<open>parsedDate\<close> and \<open>parsedDateStr\<close> are the fields
  that \<open>main\<close> adds, \<open>None\<close> while they are undefined.
\<close>

record post =
  title :: jstring
  date :: jstring
  slug :: jstring
  url :: jstring
  content_html :: jstring
  images :: "jstring list"
  comments :: "comment list"
  parsedDate :: "jsdate option"
  parsedDateStr :: "jstring option"

record postData =
  posts :: "post list"
  image_map :: "(jstring \<times> jstring) list"

definition htmlHead :: "jstring \<Rightarrow> jstring \<Rightarrow> jstring" where
  \<open>htmlHead ttl description =
     (let desc = (if description = [] then U ''Les petites histoires farfelues du vendredi de Sylvie Lafleur'' else description)
      in U ''<!DOCTYPE html>''
         @ [10]
         @ U ''<html lang="fr-FR">''
         @ [10]
         @ U ''<head>''
         @ [10]
         @ U ''<meta charset="UTF-8">''
         @ [10]
         @ U ''<meta name="viewport" content="width=device-width, initial-s''
         @ U ''cale=1.0">''
         @ [10]
         @ U ''<title>''
         @ escapeHtml ttl
         @ U ''</title>''
         @ [10]
         @ U ''<meta name="description" content="''
         @ escapeHtml desc
         @ U ''">''
         @ [10]
         @ U ''<meta property="og:title" content="''
         @ escapeHtml ttl
         @ U ''">''
         @ [10]
         @ U ''<meta property="og:type" content="article">''
         @ [10]
         @ U ''<meta property="og:site_name" content="Les petits vendredis"''
         @ U ''>''
         @ [10]
         @ U ''<meta name="robots" content="noai, noimageai">''
         @ [10]
         @ U ''<meta name="robots" content="max-snippet:-1, max-image-previ''
         @ U ''ew:large, max-video-preview:-1">''
         @ [10]
         @ U ''<link rel="preconnect" href="https://fonts.googleapis.com">''
         @ [10]
         @ U ''<link rel="preconnect" href="https://fonts.gstatic.com" cros''
         @ U ''sorigin>''
         @ [10]
         @ U ''<link href="https://fonts.googleapis.com/css2?family=Playfai''
         @ U ''r+Display:ital,wght@0,400;0,600;1,400&family=DM+Sans:wght@40''
         @ U ''0;500&display=swap" rel="stylesheet">''
         @ [10]
         @ U ''<link rel="icon" href="/favicon.svg" type="image/svg+xml">''
         @ [10]
         @ U ''<link rel="stylesheet" href="/style.css">''
         @ [10]
         @ U ''</head>'')\<close>

definition HEADER :: jstring where
  \<open>HEADER =
     U ''<header class="site-header">''
     @ [10]
     @ U ''  <h1 class="site-title"><a href="/">Les petits vendredis</a''
     @ U ''></h1>''
     @ [10]
     @ U ''  <nav class="site-nav">''
     @ [10]
     @ U ''    <a href="/">Accueil</a>''
     @ [10]
     @ U ''  </nav>''
     @ [10]
     @ U ''</header>''\<close>

definition FOOTER :: jstring where
  \<open>FOOTER =
     U ''<footer class="site-footer">''
     @ [10]
     @ U ''  <div class="footer-title">Les petits vendredis</div>''
     @ [10]
     @ U ''  <p class="footer-tagline">Les petites histoires farfelues ''
     @ U ''du vendredi de Sylvie Lafleur</p>''
     @ [10]
     @ U ''</footer>''\<close>

text \<open>The display date \<open>post.parsedDateStr ?? post.date\<close>.\<close>

definition dateStr_of :: "post \<Rightarrow> jstring" where
  "dateStr_of p = (case parsedDateStr p of Some s \<Rightarrow> s | None \<Rightarrow> date p)"

definition nav_link :: "jstring \<Rightarrow> jstring \<Rightarrow> post \<Rightarrow> jstring" where
  \<open>nav_link cls label p =
     U ''    <a href="/''
     @ slug p
     @ U ''/" class="nav-link ''
     @ cls
     @ U ''">''
     @ [10]
     @ U ''      <div class="nav-label">''
     @ label
     @ U ''</div>''
     @ [10]
     @ U ''      <div class="nav-title">''
     @ escapeHtml (title p)
     @ U ''</div>''
     @ [10]
     @ U ''    </a>''
     @ [10]\<close>

definition navHtml_of :: "post option \<Rightarrow> post option \<Rightarrow> jstring" where
  \<open>navHtml_of prevPost nextPost =
     (if prevPost = None \<and> nextPost = None then []
      else U ''<nav class="post-navigation">''
           @ [10]
           @ (case prevPost of
                Some p \<Rightarrow> nav_link (U ''prev'') (U ''Pr'' @ [233] @ U ''c'' @ [233] @ U ''dent'') p
              | None \<Rightarrow> U ''    <div></div>'' @ [10])
           @ (case nextPost of
                Some p \<Rightarrow> nav_link (U ''next'') (U ''Suivant'') p
              | None \<Rightarrow> U ''    <div></div>'' @ [10])
           @ U ''  </nav>'')\<close>

definition comment_html :: "comment \<Rightarrow> jstring" where
  \<open>comment_html c =
     U ''    <div class="comment">''
     @ [10]
     @ U ''      <div class="comment-author">''
     @ escapeHtml (author c)
     @ U ''</div>''
     @ [10]
     @ U ''      <div class="comment-content">''
     @ escapeHtml (comment_text c)
     @ U ''</div>''
     @ [10]
     @ U ''    </div>''
     @ [10]\<close>

definition commentsHtml_of :: "comment list \<Rightarrow> jstring" where
  \<open>commentsHtml_of cs =
     (if length cs > 0 then
        U ''<section class="comments-section">''
        @ [10]
        @ U ''    <h3 class="comments-title">''
        @ show_nat (length cs)
        @ U '' ''
        @ (if length cs = 1 then U ''commentaire'' else U ''commentaires'')
        @ U ''</h3>''
        @ [10]
        @ concat (map comment_html cs)
        @ U ''  </section>''
      else [])\<close>

definition generatePostPage ::
  "(jstring \<Rightarrow> node list) \<Rightarrow> (jstring \<Rightarrow> jstring) \<Rightarrow> (jstring \<Rightarrow> jstring) \<Rightarrow> (jstring \<Rightarrow> bool) \<Rightarrow>
   post \<Rightarrow> post option \<Rightarrow> post option \<Rightarrow> (jstring \<times> jstring) list \<Rightarrow> jstring option" where
  \<open>generatePostPage parse decode native exists_image p prevPost nextPost imageMap =
     (case cleanContentHtml parse decode native exists_image (content_html p) imageMap of
        None \<Rightarrow> None
      | Some content \<Rightarrow>
          (let excerpt = getExcerpt parse decode (content_html p) 160;
               navHtml = navHtml_of prevPost nextPost;
               commentsHtml = commentsHtml_of (comments p)
           in Some (htmlHead (title p @ U '' | Les petits vendredis'') excerpt
                   @ [10]
                   @ U ''<body>''
                   @ [10, 10]
                   @ HEADER
                   @ [10, 10]
                   @ U ''<main class="main-content">''
                   @ [10]
                   @ U ''  <article class="post">''
                   @ [10]
                   @ U ''    <header class="entry-header">''
                   @ [10]
                   @ U ''      <h1 class="entry-title">''
                   @ escapeHtml (title p)
                   @ U ''</h1>''
                   @ [10]
                   @ U ''      <div class="entry-meta">''
                   @ escapeHtml (dateStr_of p)
                   @ U ''</div>''
                   @ [10]
                   @ U ''    </header>''
                   @ [10, 10]
                   @ U ''    <div class="entry-content">''
                   @ [10]
                   @ U ''      ''
                   @ content
                   @ [10]
                   @ U ''    </div>''
                   @ [10]
                   @ U ''  </article>''
                   @ [10, 10]
                   @ U ''  <div class="divider">&middot;&middot;&middot;</div>''
                   @ [10, 10]
                   @ U ''  <section class="author-section">''
                   @ [10]
                   @ U ''    <img src="/images/sylvie.jpg" alt="Sylvie Lafleur">''
                   @ [10]
                   @ U ''    <div class="author-info">''
                   @ [10]
                   @ U ''      <h4>Sylvie Lafleur</h4>''
                   @ [10]
                   @ U ''      <p>Femme ordinaire, m''
                   @ [232]
                   @ U ''re qui s''
                   @ [39]
                   @ U ''est bien tir''
                   @ [233]
                   @ U ''e d''
                   @ [39]
                   @ U ''affaire, folle ''
                   @ [224]
                   @ U '' temps partiel ayant un esprit tr''
                   @ [232]
                   @ U ''s frivole et des id''
                   @ [233]
                   @ U ''es plus farfelues les unes que les autres.</p>''
                   @ [10]
                   @ U ''    </div>''
                   @ [10]
                   @ U ''  </section>''
                   @ [10, 10]
                   @ U ''  ''
                   @ navHtml
                   @ [10, 10]
                   @ U ''  ''
                   @ commentsHtml
                   @ [10]
                   @ U ''</main>''
                   @ [10, 10]
                   @ FOOTER
                   @ [10, 10]
                   @ U ''</body>''
                   @ [10]
                   @ U ''</html>'')))\<close>

definition post_item :: "(jstring \<Rightarrow> node list) \<Rightarrow> (jstring \<Rightarrow> jstring) \<Rightarrow> post \<Rightarrow> jstring" where
  \<open>post_item parse decode p =
     (let excerpt = getExcerpt parse decode (content_html p) 180 in
      U ''    <li class="post-list-item">''
      @ [10]
      @ U ''      <a href="/''
      @ slug p
      @ U ''/">''
      @ [10]
      @ U ''        <div class="post-list-date">''
      @ escapeHtml (dateStr_of p)
      @ U ''</div>''
      @ [10]
      @ U ''        <h2 class="post-list-title">''
      @ escapeHtml (title p)
      @ U ''</h2>''
      @ [10]
      @ U ''        <p class="post-list-excerpt">''
      @ escapeHtml excerpt
      @ U ''</p>''
      @ [10]
      @ U ''      </a>''
      @ [10]
      @ U ''    </li>''
      @ [10])\<close>

definition generateHomepage :: "(jstring \<Rightarrow> node list) \<Rightarrow> (jstring \<Rightarrow> jstring) \<Rightarrow> post list \<Rightarrow> jstring" where
  \<open>generateHomepage parse decode ps =
     (let postItems = concat (map (post_item parse decode) ps) in
      htmlHead (U ''Les petits vendredis'') (U ''Voici les petites histoires farfelues du vendredi de Sylvie Lafleur'')
      @ [10]
      @ U ''<body>''
      @ [10, 10]
      @ HEADER
      @ [10, 10]
      @ U ''<main class="main-content">''
      @ [10]
      @ U ''  <div class="page-header">''
      @ [10]
      @ U ''    <h1 class="home-title">Les petits vendredis</h1>''
      @ [10]
      @ U ''    <p class="home-tagline">Voici mes petites histoires du v''
      @ U ''endredi, plus farfelues les unes que les autres</p>''
      @ [10]
      @ U ''    <div class="home-author">''
      @ [10]
      @ U ''      <img src="/images/sylvie.jpg" alt="Sylvie Lafleur">''
      @ [10]
      @ U ''      <span>Par Sylvie Lafleur</span>''
      @ [10]
      @ U ''    </div>''
      @ [10]
      @ U ''  </div>''
      @ [10, 10]
      @ U ''  <ul class="post-list">''
      @ [10]
      @ postItems
      @ U ''  </ul>''
      @ [10]
      @ U ''</main>''
      @ [10, 10]
      @ FOOTER
      @ [10, 10]
      @ U ''</body>''
      @ [10]
      @ U ''</html>'')\<close>

section \<open>The run of the generator\<close>

text \<open>
  The attachment slugs are loaded once and cached.  \<open>json\<close> is the content of
  \<open>attachment_slugs.json\<close>, \<open>None\<close> when \<open>require\<close> throws; the cache is
  the module variable \<open>_attachmentSlugs\<close>.
\<close>

definition loadAttachmentSlugs :: "jstring list option \<Rightarrow> jstring set option \<Rightarrow> jstring set \<times> jstring set option" where
  "loadAttachmentSlugs json cache =
     (case cache of
        Some s \<Rightarrow> (s, cache)
      | None \<Rightarrow>
          (let s = (case json of Some raw \<Rightarrow> set raw | None \<Rightarrow> {}) in (s, Some s)))"

definition isBlogPost :: "jstring list option \<Rightarrow> jstring set option \<Rightarrow> post \<Rightarrow> bool \<times> jstring set option" where
  "isBlogPost json cache p =
     (case loadAttachmentSlugs json cache of (s, cache') \<Rightarrow> (slug p \<notin> s, cache'))"

text \<open>\<open>allPosts.filter(isBlogPost)\<close>, with the cache passed along.\<close>

fun filter_posts :: "jstring list option \<Rightarrow> jstring set option \<Rightarrow> post list \<Rightarrow> post list" where
  "filter_posts json cache [] = []"
| "filter_posts json cache (p # ps) =
     (case isBlogPost json cache p of
        (keep, cache') \<Rightarrow> (if keep then [p] else []) @ filter_posts json cache' ps)"

text \<open>The loop that parses the dates.\<close>

definition with_date :: "post \<Rightarrow> post" where
  "with_date p =
     (let dt = parseFrenchDate (date p) in
      p\<lparr>parsedDate := dt,
        parsedDateStr := Some (if dt \<noteq> None then formatDate dt else date p)\<rparr>)"

text \<open>
  The sort key \<open>parsedDate?.getTime() ?? 0\<close>; \<open>None\<close> is \<open>NaN\<close>, the time of
  an invalid date.  The comparator gives the difference of the keys, \<open>NaN\<close>
  when one of them is.
\<close>

definition sort_key :: "post \<Rightarrow> int option" where
  "sort_key p =
     (case parsedDate p of
        None \<Rightarrow> Some 0
      | Some InvalidDate \<Rightarrow> None
      | Some (ValidDate t y m d) \<Rightarrow> Some t)"

definition compare_posts :: "post \<Rightarrow> post \<Rightarrow> int option" where
  "compare_posts a b =
     (case (sort_key b, sort_key a) of
        (Some x, Some y) \<Rightarrow> Some (x - y)
      | _ \<Rightarrow> None)"

text \<open>
  \<open>Array.prototype.sort\<close> with a consistent comparator is the stable sort: an
  element is put before the first element that must not come before it.
\<close>

fun insert_by :: "('a \<Rightarrow> 'a \<Rightarrow> int) \<Rightarrow> 'a \<Rightarrow> 'a list \<Rightarrow> 'a list" where
  "insert_by cmp x [] = [x]"
| "insert_by cmp x (y # ys) =
     (if cmp x y \<le> 0 then x # y # ys else y # insert_by cmp x ys)"

definition sort_by :: "('a \<Rightarrow> 'a \<Rightarrow> int) \<Rightarrow> 'a list \<Rightarrow> 'a list" where
  "sort_by cmp xs = foldr (insert_by cmp) xs []"

text \<open>
  \<open>posts.sort(...)\<close>.  The comparator is consistent when no key is \<open>NaN\<close>.
  Otherwise the language leaves the order to the engine, which still returns
  the same posts: \<open>engine ps\<close> ranks the posts of \<open>ps\<close> in the order that the
  engine gives them.
\<close>

definition sort_posts :: "(post list \<Rightarrow> post \<Rightarrow> int) \<Rightarrow> post list \<Rightarrow> post list" where
  "sort_posts engine ps =
     (if list_all (\<lambda>p. sort_key p \<noteq> None) ps then sort_by (\<lambda>a b. the (compare_posts a b)) ps
      else sort_by (\<lambda>a b. engine ps a - engine ps b) ps)"

text \<open>The posts that the generator renders, in the order of the site.\<close>

definition site_posts :: "(post list \<Rightarrow> post \<Rightarrow> int) \<Rightarrow> jstring list option \<Rightarrow> postData \<Rightarrow> post list" where
  "site_posts engine json data =
     sort_posts engine (map with_date (filter_posts json None (posts data)))"

definition pad2 :: "jstring \<Rightarrow> jstring" where
  "pad2 s = replicate (2 - length s) 48 @ s"

definition lastmod_of :: "post \<Rightarrow> jstring" where
  \<open>lastmod_of p =
     (case parsedDate p of
        None \<Rightarrow> []
      | Some InvalidDate \<Rightarrow> [10] @ U ''    <lastmod>NaN-NaN-NaN</lastmod>''
      | Some (ValidDate t y m d) \<Rightarrow>
          [10]
          @ U ''    <lastmod>''
          @ show_int y
          @ U ''-''
          @ pad2 (show_nat (m + 1))
          @ U ''-''
          @ pad2 (show_int d)
          @ U ''</lastmod>'')\<close>

definition sitemap_url :: "post \<Rightarrow> jstring" where
  \<open>sitemap_url p =
     U ''  <url>''
     @ [10]
     @ U ''    <loc>https://lespetitsvendredis.com/''
     @ slug p
     @ U ''/</loc>''
     @ lastmod_of p
     @ [10]
     @ U ''  </url>''
     @ [10]\<close>

definition sitemap_xml :: "post list \<Rightarrow> jstring" where
  \<open>sitemap_xml ps =
     U ''<?xml version="1.0" encoding="UTF-8"?>''
     @ [10]
     @ U ''<urlset xmlns="http://www.sitemaps.org/schemas/sitemap/0.9">''
     @ [10]
     @ U ''  <url>''
     @ [10]
     @ U ''    <loc>https://lespetitsvendredis.com/</loc>''
     @ [10]
     @ U ''    <priority>1.0</priority>''
     @ [10]
     @ U ''  </url>''
     @ [10]
     @ concat (map sitemap_url ps)
     @ U ''</urlset>''
     @ [10]\<close>

text \<open>
  The files of a run that depend on the posts: the page of each post (with the
  slug that names its directory), the homepage and the sitemap.  The style
  sheet, \<open>CNAME\<close>, \<open>.nojekyll\<close>, the 404 page and \<open>robots.txt\<close> are fixed
  texts.  \<open>None\<close> is a run that ends with an exception.
\<close>

record site =
  post_pages :: "(jstring \<times> jstring) list"
  homepage :: jstring
  sitemap :: jstring

fun option_list :: "'a option list \<Rightarrow> 'a list option" where
  "option_list [] = Some []"
| "option_list (x # xs) =
     (case x of
        None \<Rightarrow> None
      | Some y \<Rightarrow> (case option_list xs of None \<Rightarrow> None | Some ys \<Rightarrow> Some (y # ys)))"

definition post_page_at ::
  "(jstring \<Rightarrow> node list) \<Rightarrow> (jstring \<Rightarrow> jstring) \<Rightarrow> (jstring \<Rightarrow> jstring) \<Rightarrow> (jstring \<Rightarrow> bool) \<Rightarrow>
   (jstring \<times> jstring) list \<Rightarrow> post list \<Rightarrow> nat \<Rightarrow> (jstring \<times> jstring) option" where
  "post_page_at parse decode native exists_image imageMap ps i =
     (let p = ps ! i;
          prevPost = (if i + 1 < length ps then Some (ps ! (i + 1)) else None);
          nextPost = (if i > 0 then Some (ps ! (i - 1)) else None)
      in map_option (\<lambda>html. (slug p, html))
           (generatePostPage parse decode native exists_image p prevPost nextPost imageMap))"

definition main ::
  "(jstring \<Rightarrow> node list) \<Rightarrow> (jstring \<Rightarrow> jstring) \<Rightarrow> (jstring \<Rightarrow> jstring) \<Rightarrow> (jstring \<Rightarrow> bool) \<Rightarrow>
   (post list \<Rightarrow> post \<Rightarrow> int) \<Rightarrow> jstring list option \<Rightarrow> postData \<Rightarrow> site option" where
  "main parse decode native exists_image engine json data =
     (let ps = site_posts engine json data in
      case option_list (map (post_page_at parse decode native exists_image (image_map data) ps) [0 ..< length ps]) of
        None \<Rightarrow> None
      | Some pages \<Rightarrow>
          Some \<lparr>post_pages = pages,
                homepage = generateHomepage parse decode ps,
                sitemap = sitemap_xml ps\<rparr>)"

section \<open>The words of the specification\<close>

text \<open>
  The replacement that the specification gives for \<open>escapeHtml\<close>: each of
  \<open>&\<close>, \<open><\<close>, \<open>>\<close> and the double quote becomes its entity, every other
  code unit stays.
\<close>

definition escape_unit :: "nat \<Rightarrow> jstring" where
  "escape_unit c =
     (if c = 38 then U ''&amp;'' else if c = 60 then U ''&lt;''
      else if c = 62 then U ''&gt;'' else if c = 34 then U ''&quot;'' else [c])"

text \<open>The code units that open and close tags and attribute values.\<close>

definition markup_units :: "nat set" where
  "markup_units = {60, 62, 34}"

section \<open>Sample data\<close>

text \<open>Posts for the closed instances of the theorems below.\<close>

definition sample_post :: post where
  "sample_post =
     \<lparr>title = U ''Un'', date = U ''5 mars 2020'', slug = U ''un'',
      url = U ''https://lespetitsvendredis.com/un/'', content_html = U ''<p>Bonjour</p>'',
      images = [], comments = [\<lparr>author = U ''Moi'', comment_text = U ''Merci''\<rparr>],
      parsedDate = None, parsedDateStr = None\<rparr>"




definition undated_post :: post where
  "undated_post = sample_post\<lparr>title := U ''Sans date'', date := U ''hier'', slug := U ''sans-date''\<rparr>"

text \<open>The text that \<open>getExcerpt\<close> cuts: the text of the document without the marker, trimmed.\<close>

definition excerpt_text :: "(jstring \<Rightarrow> node list) \<Rightarrow> (jstring \<Rightarrow> jstring) \<Rightarrow> jstring \<Rightarrow> jstring" where
  "excerpt_text parse decode html =
     trim (remove_all more_marker 0 (decode (concat (map rawText (parse html)))))"

text \<open>
  The four stages of the image lookup as the specification words them: the
  exact match after the protocol is normalised, the match without the size
  suffix, the match of basenames over all keys of the map, and the file of the
  sanitised basename in the output images directory.
\<close>

definition normalize_protocol :: "jstring \<Rightarrow> jstring" where
  "normalize_protocol u = replace_first (U ''http://'') (U ''https://'') u"

definition stage_exact :: "(jstring \<times> jstring) list \<Rightarrow> jstring \<Rightarrow> jstring property option" where
  "stage_exact imageMap u = truthy_lookup imageMap (normalize_protocol u)"

definition stage_size_suffix :: "(jstring \<times> jstring) list \<Rightarrow> jstring \<Rightarrow> jstring property option" where
  "stage_size_suffix imageMap u = truthy_lookup imageMap (strip_size_suffix (normalize_protocol u))"

definition stage_basename :: "(jstring \<times> jstring) list \<Rightarrow> jstring \<Rightarrow> jstring property option" where
  "stage_basename imageMap u =
     map_option (\<lambda>kv. Own (snd kv)) (find (\<lambda>kv. basename (before_query (fst kv)) = basename (before_query u)) imageMap)"

definition stage_disk :: "(jstring \<Rightarrow> bool) \<Rightarrow> jstring \<Rightarrow> jstring property option" where
  "stage_disk exists_image u =
     (if exists_image (clean_name (basename (before_query u)))
      then Some (Own (clean_name (basename (before_query u)))) else None)"

text \<open>The result of the first stage that gives one.\<close>

fun first_result :: "'a option list \<Rightarrow> 'a option" where
  "first_result [] = None"
| "first_result (None # rs) = first_result rs"
| "first_result (Some v # rs) = Some v"




text \<open>The exclusion list: the slugs of the attachment file, none when the file cannot be loaded.\<close>

definition attachment_slugs :: "jstring list option \<Rightarrow> jstring set" where
  "attachment_slugs json = (case json of Some raw \<Rightarrow> set raw | None \<Rightarrow> {})"

text \<open>
  What the image pass removes for an image that does not resolve: the nearest
  enclosing figure, else the nearest enclosing anchor, else the image.
\<close>

definition removal_target :: "dom \<Rightarrow> nat \<Rightarrow> nat" where
  "removal_target st i =
     (case closest (U ''figure'') st i of
        Some fig \<Rightarrow> the (node_id fig)
      | None \<Rightarrow> (case closest (U ''a'') st i of Some anchor \<Rightarrow> the (node_id anchor) | None \<Rightarrow> i))"

text \<open>The numbers of the elements of a tree.\<close>

definition element_ids :: "node list \<Rightarrow> nat set" where
  "element_ids ns = set (ids (elements ns))"

section \<open>Properties of the URL filter\<close>

lemma length_split_on: "length (split_on sep s) = Suc (count_list s sep)"
  by (induction s) (auto split: list.splits)

lemma split_on_single: "length (split_on sep s) > 1 \<longleftrightarrow> sep \<in> set s"
  using count_list_0_iff [of s sep] by (auto simp: length_split_on)

lemma isBlogPostUrl_True:
  "isBlogPostUrl pathname u = Some True \<longleftrightarrow>
     (\<exists>pn. pathname u = Some pn \<and> strip_slashes pn \<noteq> [] \<and> strip_slashes pn \<notin> SKIP_SLUGS
        \<and> 47 \<notin> set (strip_slashes pn) \<and> \<not> str_includes u (U ''attachment_id''))"
  using split_on_single [of 47]
  by (auto simp: isBlogPostUrl_def Let_def split: option.splits)

lemma filterUrls_filter:
  "filterUrls pathname us = Some ps \<Longrightarrow> ps = filter (\<lambda>u. isBlogPostUrl pathname u = Some True) us"
  by (induction us arbitrary: ps) (auto split: option.splits if_splits)

lemma count_list_filter:
  "count_list (filter P xs) u = (if P u then count_list xs u else 0)"
  by (induction xs) auto

lemma distinct_count_list:
  "distinct xs \<longleftrightarrow> (\<forall>u \<in> set xs. count_list xs u = 1)"
proof (induction xs)
  case Nil
  show ?case by simp
next
  case (Cons x xs)
  have "x \<notin> set xs \<longleftrightarrow> count_list xs x = 0" by (simp add: count_list_0_iff)
  moreover have "u \<in> set xs \<Longrightarrow> 0 < count_list xs u" for u
    using count_list_0_iff [of xs u] by auto
  ultimately show ?case using Cons.IH by (auto split: if_splits)
qed

lemma filterUrls_total:
  "filterUrls pathname us = Some ps \<Longrightarrow> \<forall>u \<in> set us. isBlogPostUrl pathname u \<noteq> None"
  by (induction us arbitrary: ps) (auto split: option.splits)

text \<open>
  C9, as the code has it.  The candidates are the URLs of the sitemap that
  the filter keeps, in the order of the sitemap and each as often as the
  sitemap lists it.  Every URL that the filter keeps has a path that is not
  empty, is not in the deny-list and has one segment, and does not contain
  the attachment marker; every URL that it drops has an empty path, a path of
  the deny-list, a path of several segments or the attachment marker.  So
  the candidates hold no URL twice exactly when the sitemap lists none of
  them twice.
\<close>

theorem url_filter_excludes:
  assumes "filterUrls pathname allUrls = Some postUrls"
  shows "postUrls = filter (\<lambda>u. u \<in> set postUrls) allUrls
         \<and> (\<forall>u. count_list postUrls u = (if u \<in> set postUrls then count_list allUrls u else 0))
         \<and> (\<forall>u \<in> set postUrls. u \<in> set allUrls \<and>
              (\<exists>pn. pathname u = Some pn \<and> strip_slashes pn \<noteq> [] \<and> strip_slashes pn \<notin> SKIP_SLUGS
                 \<and> length (split_on 47 (strip_slashes pn)) = 1 \<and> \<not> str_includes u (U ''attachment_id'')))
         \<and> (\<forall>u \<in> set allUrls. u \<notin> set postUrls \<longrightarrow>
              (\<exists>pn. pathname u = Some pn \<and>
                 (strip_slashes pn = [] \<or> strip_slashes pn \<in> SKIP_SLUGS
                  \<or> length (split_on 47 (strip_slashes pn)) > 1 \<or> str_includes u (U ''attachment_id''))))
         \<and> (distinct postUrls \<longleftrightarrow> (\<forall>u \<in> set postUrls. count_list allUrls u = 1))
         \<and> (distinct allUrls \<longrightarrow> distinct postUrls)"
proof -
  let ?keep = "\<lambda>u. isBlogPostUrl pathname u = Some True"
  have eq: "postUrls = filter ?keep allUrls"
    using assms by (rule filterUrls_filter)
  have total: "\<forall>u \<in> set allUrls. isBlogPostUrl pathname u \<noteq> None"
    using assms by (rule filterUrls_total)
  have one: "\<And>p. 47 \<notin> set p \<Longrightarrow> length (split_on 47 p) = 1"
    by (simp add: length_split_on)
  have mem: "u \<in> set postUrls \<longleftrightarrow> u \<in> set allUrls \<and> ?keep u" for u
    by (simp add: eq)
  have "filter (\<lambda>u. u \<in> set postUrls) allUrls = filter ?keep allUrls"
    by (rule filter_cong) (auto simp: mem)
  then have c0: "postUrls = filter (\<lambda>u. u \<in> set postUrls) allUrls"
    using eq by simp
  have cnt: "count_list postUrls u = (if u \<in> set postUrls then count_list allUrls u else 0)" for u
  proof (cases "u \<in> set postUrls")
    case True
    then have "?keep u" by (simp add: mem)
    then have "count_list (filter ?keep allUrls) u = count_list allUrls u"
      by (simp add: count_list_filter)
    with True eq show ?thesis by simp
  next
    case False
    then show ?thesis by (simp add: count_list_0_iff)
  qed
  have c1: "\<forall>u \<in> set postUrls. u \<in> set allUrls \<and>
            (\<exists>pn. pathname u = Some pn \<and> strip_slashes pn \<noteq> [] \<and> strip_slashes pn \<notin> SKIP_SLUGS
               \<and> length (split_on 47 (strip_slashes pn)) = 1 \<and> \<not> str_includes u (U ''attachment_id''))"
    using one by (auto simp: mem isBlogPostUrl_True)
  have c2: "\<forall>u \<in> set allUrls. u \<notin> set postUrls \<longrightarrow>
              (\<exists>pn. pathname u = Some pn \<and>
                 (strip_slashes pn = [] \<or> strip_slashes pn \<in> SKIP_SLUGS
                  \<or> length (split_on 47 (strip_slashes pn)) > 1 \<or> str_includes u (U ''attachment_id'')))"
  proof (intro ballI impI)
    fix u assume u: "u \<in> set allUrls" "u \<notin> set postUrls"
    then have n: "isBlogPostUrl pathname u \<noteq> Some True" by (simp add: mem)
    from total u obtain pn where pn: "pathname u = Some pn"
      by (auto simp: isBlogPostUrl_def split: option.splits)
    from n pn show "\<exists>pn. pathname u = Some pn \<and>
                 (strip_slashes pn = [] \<or> strip_slashes pn \<in> SKIP_SLUGS
                  \<or> length (split_on 47 (strip_slashes pn)) > 1 \<or> str_includes u (U ''attachment_id''))"
      by (auto simp: isBlogPostUrl_def Let_def split: if_splits)
  qed
  have c3: "distinct postUrls \<longleftrightarrow> (\<forall>u \<in> set postUrls. count_list allUrls u = 1)"
    using cnt by (simp add: distinct_count_list [of postUrls])
  have c4: "distinct allUrls \<longrightarrow> distinct postUrls" by (simp add: eq)
  from c0 cnt c1 c2 c3 c4 show ?thesis by (intro conjI allI) blast+
qed

text \<open>
  The theorem at a sitemap of five URLs that lists a post twice: the post is
  a candidate twice, in its places.
\<close>

theorem url_filter_excludes_witness:
  "filterUrls plain_pathname
     [U ''https://lespetitsvendredis.com/un-billet/'', U ''https://lespetitsvendredis.com/membres/'',
      U ''https://lespetitsvendredis.com/a/b/'', U ''https://lespetitsvendredis.com/un-billet/'',
      U ''https://lespetitsvendredis.com/?attachment_id=7'']
   = Some [U ''https://lespetitsvendredis.com/un-billet/'', U ''https://lespetitsvendredis.com/un-billet/'']
   \<and> count_list [U ''https://lespetitsvendredis.com/un-billet/'', U ''https://lespetitsvendredis.com/un-billet/'']
        (U ''https://lespetitsvendredis.com/un-billet/'') = 2
   \<and> \<not> distinct [U ''https://lespetitsvendredis.com/un-billet/'', U ''https://lespetitsvendredis.com/un-billet/'']"
proof -
  have f: "filterUrls plain_pathname
     [U ''https://lespetitsvendredis.com/un-billet/'', U ''https://lespetitsvendredis.com/membres/'',
      U ''https://lespetitsvendredis.com/a/b/'', U ''https://lespetitsvendredis.com/un-billet/'',
      U ''https://lespetitsvendredis.com/?attachment_id=7'']
   = Some [U ''https://lespetitsvendredis.com/un-billet/'', U ''https://lespetitsvendredis.com/un-billet/'']"
    by (simp add: U_def isBlogPostUrl_def plain_pathname_def strip_slashes_def SKIP_SLUGS_def)
  from url_filter_excludes [OF f] show ?thesis
    using f by (simp add: U_def)
qed

text \<open>
  C9 as stated fails: the filter removes no duplicate.  A sitemap that lists
  a post twice gives the post twice.
\<close>

theorem url_filter_keeps_duplicates:
  "filterUrls plain_pathname
     [U ''https://lespetitsvendredis.com/un-billet/'', U ''https://lespetitsvendredis.com/un-billet/'']
   = Some [U ''https://lespetitsvendredis.com/un-billet/'', U ''https://lespetitsvendredis.com/un-billet/'']
   \<and> \<not> distinct [U ''https://lespetitsvendredis.com/un-billet/'', U ''https://lespetitsvendredis.com/un-billet/'']"
  by (simp add: U_def isBlogPostUrl_def plain_pathname_def strip_slashes_def SKIP_SLUGS_def)

section \<open>Escaping\<close>

lemma replace_unit_concat:
  "replace_unit c r (concat (map f s)) = concat (map (\<lambda>x. replace_unit c r (f x)) s)"
  by (induction s) (auto simp: replace_unit_def)

lemma replace_unit_as_concat: "replace_unit c r s = concat (map (\<lambda>x. if x = c then r else [x]) s)"
  by (simp add: replace_unit_def)

lemma escape_one:
  "replace_unit 34 (U ''&quot;'') (replace_unit 62 (U ''&gt;'') (replace_unit 60 (U ''&lt;'')
     (if x = 38 then U ''&amp;'' else [x]))) = escape_unit x"
  by (simp add: replace_unit_def escape_unit_def U_def)

lemma escapeHtml_units: "escapeHtml s = concat (map escape_unit s)"
proof -
  have "escapeHtml s =
      concat (map (\<lambda>x. replace_unit 34 (U ''&quot;'') (replace_unit 62 (U ''&gt;'')
        (replace_unit 60 (U ''&lt;'') (if x = 38 then U ''&amp;'' else [x])))) s)"
    unfolding escapeHtml_def
    by (subst replace_unit_as_concat [of 38]) (simp only: replace_unit_concat)
  then show ?thesis by (simp only: escape_one)
qed

lemma escape_unit_markup: "c \<in> markup_units \<Longrightarrow> c \<notin> set (escape_unit x)"
  by (auto simp: escape_unit_def markup_units_def U_def)

lemma escapeHtml_no_markup: "c \<in> markup_units \<Longrightarrow> c \<notin> set (escapeHtml s)"
  by (auto simp: escapeHtml_units dest: escape_unit_markup)

lemma count_escapeHtml [simp]:
  "count_list (escapeHtml s) 60 = 0" "count_list (escapeHtml s) 62 = 0" "count_list (escapeHtml s) 34 = 0"
  using escapeHtml_no_markup [of _ s] by (simp_all add: markup_units_def)


lemma count_concat_map:
  "count_list (concat (map f xs)) c = sum_list (map (\<lambda>x. count_list (f x) c) xs)"
  by (induction xs) auto













section \<open>Evaluation\<close>

text \<open>The defining equations that a closed instance unfolds.\<close>

lemmas parse_eval = parse_plain_def U_def tag_token_def tag_raw_def is_js_space_def lower_ascii_def void_tags_def

lemmas dom_eval = querySelectorAll_def querySelector_def ids_def has_tag_def List.map_filter_def
  lookup_def is_empty_block_def blank_def text_of_def trim_def is_js_space_def is_more_link_def has_class_def
  getAttribute_def is_share_def remove_def is_top_def closest_def ancestry_def remove_image_def
  is_image_href_def endsWith_def lower_ascii_def replaceWith_def Let_def U_def is_entry_content_def
  toLowerCase_def lower_unit_def

lemmas image_eval = findLocalImage_def truthy_lookup_def get_property_def object_prototype_keys_def
  basename_def before_query_def clean_name_def is_word_def is_digit_def size_tail_def U_def

lemmas html_eval = innerHTML_def void_tags_def clean_up_def empty_block_match_def
  replace_unit_def trim_def is_js_space_def U_def Let_def

text \<open>
  A value without quotation marks, backslashes, control characters and
  surrogates is written between quotation marks as it is.
\<close>

lemma replace_unit_absent: "c \<notin> set s \<Longrightarrow> replace_unit c r s = s"
  by (induction s) (auto simp: replace_unit_def)

lemma replace_all_absent: "p \<notin> set s \<Longrightarrow> replace_all (p # ps) r 0 s = s"
  by (induction s) auto

lemma json_units_plain:
  "\<forall>c \<in> set s. 32 \<le> c \<and> c < 55296 \<and> c \<noteq> 34 \<and> c \<noteq> 92 \<Longrightarrow> json_units s = s"
  by (induction s rule: json_units.induct) (auto simp: json_unit_def)

lemma quoteAttribute_plain:
  assumes "\<forall>c \<in> set s. 32 \<le> c \<and> c < 55296 \<and> c \<noteq> 34 \<and> c \<noteq> 92"
  shows "quoteAttribute s = [34] @ s @ [34]"
proof -
  from assms have a: "34 \<notin> set s" "92 \<notin> set s" by auto
  then have b: "92 \<notin> set ([34] @ s @ [34])" by simp
  have f: "filter (\<lambda>c. c \<noteq> 92) ([34] @ s @ [34]) = [34] @ s @ [34]"
    using a by (auto simp: filter_id_conv)
  show ?thesis
    unfolding quoteAttribute_def JSON_stringify_def replace_unit_absent [OF a(1)]
      json_units_plain [OF assms] replace_all_absent [OF b] f ..
qed

lemmas attr_eval = setAttribute_def removeAttribute_def attrs_text_def quoteAttribute_plain
  toLowerCase_def lower_unit_def wp_attributes_def update_node_def property_text_def U_def

text \<open>The body of the image loop and the passes, one step at a time.\<close>

lemma fix_image_resolved:
  assumes "lookup st i = Some img" "getAttribute decode (U ''src'') img = src" "src \<noteq> []"
    and "findLocalImage ex src m = Some localFile" "localFile \<noteq> Own []"
    and "fold (\<lambda>attr. update_node i (removeAttribute attr)) wp_attributes
           (update_node i (setAttribute (U ''src'') (U ''/images/'' @ property_text native localFile)) st) = st2"
  shows "fix_image decode native ex m i st
       = (case closest (U ''a'') st2 i of
            None \<Rightarrow> Some st2
          | Some parentA \<Rightarrow>
              if is_image_href (getAttribute decode (U ''href'') parentA)
              then replaceWith (the (node_id parentA)) (the (lookup st2 i)) st2
              else Some st2)"
  unfolding assms(6) [symmetric] using assms(1-5) by (simp add: fix_image_def Let_def)

lemma fix_image_unresolved:
  assumes "lookup st i = Some img" "getAttribute decode (U ''src'') img = src" "src \<noteq> []"
    and "findLocalImage ex src m = None"
  shows "fix_image decode native ex m i st = Some (remove_image i st)"
  using assms by (simp add: fix_image_def Let_def)

lemma clean_tree_steps:
  assumes "remove_where (is_share decode)
             (ids (querySelectorAll (\<lambda>n. has_tag (U ''div'') n \<or> has_tag (U ''span'') n) root))
             \<lparr>attached = root, detached = []\<rparr> = st1"
    and "remove_where (\<lambda>el. True) (ids (querySelectorAll (is_more_link decode) (attached st1))) st1 = st2"
    and "remove_where (is_empty_block decode)
           (ids (querySelectorAll (\<lambda>n. has_tag (U ''p'') n \<or> has_tag (U ''div'') n) (attached st2))) st2 = st3"
    and "fix_images decode native ex m (ids (querySelectorAll (has_tag (U ''img'')) (attached st3))) st3 = Some st4"
    and "remove_empty_captions decode (ids (querySelectorAll (has_tag (U ''figure'')) (attached st4))) st4 = st5"
  shows "clean_tree decode native ex m root = Some st5"
  unfolding clean_tree_def Let_def dom.select_convs assms option.case ..

lemma cleanContentHtml_fragment:
  assumes "htmlStr \<noteq> []"
    and "querySelector (is_entry_content decode) (fst (number_nodes 1 (parse htmlStr))) = None"
    and "clean_tree decode native ex m (fst (number_nodes 1 (parse htmlStr))) = Some st"
  shows "cleanContentHtml parse decode native ex htmlStr m = Some (trim (clean_up (innerHTML (attached st))))"
  using assms by (simp add: cleanContentHtml_def Let_def)

text \<open>A paragraph of text is left as it is.\<close>

lemma clean_bonjour:
  "cleanContentHtml parse_plain (\<lambda>t. t) native (\<lambda>n. False) (U ''<p>Bonjour</p>'') [] = Some (U ''<p>Bonjour</p>'')"
proof -
  let ?p = "Element (Suc 0) (U ''p'') \<lparr>rawAttrs = [], rawAttributes = []\<rparr> [Text (U ''Bonjour'')]"
  have p: "parse_plain (U ''<p>Bonjour</p>'')
      = [Element 0 (U ''p'') \<lparr>rawAttrs = [], rawAttributes = []\<rparr> [Text (U ''Bonjour'')]]"
    by (simp add: parse_eval)
  have t: "clean_tree (\<lambda>t. t) native (\<lambda>n. False) [] [?p] = Some \<lparr>attached = [?p], detached = []\<rparr>"
    by (rule clean_tree_steps [where ?st1.0 = "\<lparr>attached = [?p], detached = []\<rparr>"
          and ?st2.0 = "\<lparr>attached = [?p], detached = []\<rparr>"
          and ?st3.0 = "\<lparr>attached = [?p], detached = []\<rparr>"
          and ?st4.0 = "\<lparr>attached = [?p], detached = []\<rparr>"])
       (simp_all add: dom_eval)
  have n: "U ''<p>Bonjour</p>'' \<noteq> []" by (simp add: U_def)
  have q: "querySelector (is_entry_content (\<lambda>t. t)) [?p] = None"
    by (simp add: dom_eval)
  have h: "trim (clean_up (innerHTML [?p])) = U ''<p>Bonjour</p>''"
    by (simp add: html_eval)
  show ?thesis
    unfolding cleanContentHtml_def by (simp add: n p q t h)
qed


section \<open>Excerpts\<close>

lemma lastIndexOf_ge: "lastIndexOf c s \<ge> - 1"
  by (induction s) (auto simp: Let_def)

lemma lastIndexOf_lt: "lastIndexOf c s < int (length s)"
  by (induction s) (auto simp: Let_def)

lemma lastIndexOf_found: "c \<in> set s \<Longrightarrow> lastIndexOf c s \<ge> 0"
  by (induction s) (auto simp: Let_def)

lemma lastIndexOf_missing: "c \<notin> set s \<Longrightarrow> lastIndexOf c s = - 1"
  by (induction s) (auto simp: Let_def)

lemma lastIndexOf_none: "lastIndexOf c s = - 1 \<longleftrightarrow> c \<notin> set s"
  using lastIndexOf_found [of c s] lastIndexOf_missing [of c s] by auto

lemma lastIndexOf_some:
  "lastIndexOf c s = int k \<Longrightarrow> k < length s \<and> s ! k = c \<and> c \<notin> set (drop (Suc k) s)"
proof (induction s arbitrary: k)
  case Nil then show ?case by simp
next
  case (Cons x xs)
  show ?case
  proof (cases "lastIndexOf c xs \<ge> 0")
    case True
    then obtain j where j: "lastIndexOf c xs = int j" using nonneg_int_cases by blast
    with Cons.prems have "k = Suc j" by (simp add: Let_def)
    with Cons.IH [OF j] show ?thesis by simp
  next
    case False
    then have n: "lastIndexOf c xs = - 1" using lastIndexOf_ge [of c xs] by simp
    with Cons.prems have "x = c" "k = 0" by (auto simp: Let_def split: if_splits)
    with n show ?thesis by (simp add: lastIndexOf_none)
  qed
qed

lemma trim_hd: "trim s \<noteq> [] \<Longrightarrow> \<not> is_js_space (hd (trim s))"
proof -
  assume a: "trim s \<noteq> []"
  let ?t = "dropWhile is_js_space s"
  have t: "trim s = rev (dropWhile is_js_space (rev ?t))" by (simp add: trim_def)
  have ne: "?t \<noteq> []"
  proof
    assume "?t = []"
    then have "trim s = []" unfolding trim_def by (simp only: rev.simps dropWhile.simps)
    with a show False by simp
  qed
  then have h: "\<not> is_js_space (hd ?t)" by (rule hd_dropWhile)
  have pre: "\<exists>zs. ?t = trim s @ zs"
    unfolding t by (metis rev_append rev_rev_ident takeWhile_dropWhile_id)
  then obtain zs where "?t = trim s @ zs" by blast
  with a have "hd ?t = hd (trim s)" by (metis hd_append2)
  with h show ?thesis by simp
qed

lemma getExcerpt_text:
  "getExcerpt parse decode html n =
     (let t = excerpt_text parse decode html; cut = lastIndexOf 32 (take n t)
      in if length t > n then take (if cut > 0 then nat cut else n) t @ U ''...'' else t)"
  by (simp add: getExcerpt_def excerpt_text_def Let_def)

text \<open>
  C7, as the code has it.  The excerpt is never longer than the limit plus the
  three dots.  A text within the limit is returned whole.  A longer text is
  cut at the last space (U+0020) among its first \<open>n\<close> code units, which is
  never the first one, so that no word is split; when these hold no space, it
  is cut at the limit.
\<close>

theorem excerpt_cut:
  "length (getExcerpt parse decode html n) \<le> n + 3
   \<and> (length (excerpt_text parse decode html) \<le> n \<longrightarrow>
        getExcerpt parse decode html n = excerpt_text parse decode html)
   \<and> (length (excerpt_text parse decode html) > n \<longrightarrow>
        (\<exists>k \<le> n. getExcerpt parse decode html n = take k (excerpt_text parse decode html) @ U ''...''
           \<and> (if 32 \<in> set (take n (excerpt_text parse decode html))
               then 0 < k \<and> k < n \<and> excerpt_text parse decode html ! k = 32
                    \<and> 32 \<notin> set (drop (Suc k) (take n (excerpt_text parse decode html)))
               else k = n)))"
proof -
  let ?t = "excerpt_text parse decode html"
  let ?cut = "lastIndexOf 32 (take n ?t)"
  have dots: "length (U ''...'') = 3" by (simp add: U_def)
  have "?cut < int (length (take n ?t))" by (rule lastIndexOf_lt)
  then have "nat ?cut \<le> n" by simp
  then have c1: "length (getExcerpt parse decode html n) \<le> n + 3"
    by (simp add: getExcerpt_text Let_def dots)
  have c2: "length ?t \<le> n \<longrightarrow> getExcerpt parse decode html n = ?t"
    by (simp add: getExcerpt_text Let_def)
  have c3: "\<exists>k \<le> n. getExcerpt parse decode html n = take k ?t @ U ''...''
           \<and> (if 32 \<in> set (take n ?t)
               then 0 < k \<and> k < n \<and> ?t ! k = 32 \<and> 32 \<notin> set (drop (Suc k) (take n ?t))
               else k = n)" if long: "length ?t > n"
  proof (cases "32 \<in> set (take n ?t)")
    case False
    then have "?cut = - 1" by (simp add: lastIndexOf_none)
    with long False show ?thesis by (simp add: getExcerpt_text Let_def)
  next
    case True
    then have "?cut \<noteq> - 1" by (simp add: lastIndexOf_none)
    with lastIndexOf_ge [of 32 "take n ?t"] have "?cut \<ge> 0" by simp
    then obtain k where k: "?cut = int k" using nonneg_int_cases by blast
    from lastIndexOf_some [OF k] long
    have kn: "k < n" and at: "take n ?t ! k = 32" and after: "32 \<notin> set (drop (Suc k) (take n ?t))"
      by auto
    from at kn have tk: "?t ! k = 32" by simp
    have "k \<noteq> 0"
    proof
      assume "k = 0"
      with tk long have "hd ?t = 32" by (cases ?t) auto
      moreover have "?t \<noteq> []" using long by auto
      then have "\<not> is_js_space (hd ?t)" unfolding excerpt_text_def by (rule trim_hd)
      ultimately show False by (simp add: is_js_space_def)
    qed
    with k kn tk after long True show ?thesis
      by (intro exI [of _ k]) (simp add: getExcerpt_text Let_def)
  qed
  from c1 c2 c3 show ?thesis by blast
qed

text \<open>The theorem at a text of four words and a limit of eight.\<close>

theorem excerpt_cut_witness:
  "length (getExcerpt parse_plain (\<lambda>t. t) (U ''<p>hello world and more</p>'') 8) \<le> 8 + 3
   \<and> length (excerpt_text parse_plain (\<lambda>t. t) (U ''<p>hello world and more</p>'')) > 8
   \<and> 32 \<in> set (take 8 (excerpt_text parse_plain (\<lambda>t. t) (U ''<p>hello world and more</p>'')))
   \<and> getExcerpt parse_plain (\<lambda>t. t) (U ''<p>hello world and more</p>'') 8 = U ''hello...''"
proof -
  have t: "excerpt_text parse_plain (\<lambda>t. t) (U ''<p>hello world and more</p>'') = U ''hello world and more''"
    by (simp add: excerpt_text_def parse_eval trim_def more_marker_def)
  have e: "getExcerpt parse_plain (\<lambda>t. t) (U ''<p>hello world and more</p>'') 8 = U ''hello...''"
    by (simp add: getExcerpt_text t Let_def) (simp add: U_def)
  have l: "length (U ''hello world and more'') > 8" "32 \<in> set (take 8 (U ''hello world and more''))"
    by (simp_all add: U_def)
  from excerpt_cut [of parse_plain "\<lambda>t. t" "U ''<p>hello world and more</p>''" 8]
  have "length (getExcerpt parse_plain (\<lambda>t. t) (U ''<p>hello world and more</p>'') 8) \<le> 8 + 3"
    by blast
  with t e l show ?thesis by simp
qed

text \<open>
  C7 as stated fails for white space other than the space: the text
  \<open>hello\<close>, line feed, \<open>world\<close> has white space before the limit of
  eight, and the excerpt is cut inside \<open>world\<close>.
\<close>

theorem excerpt_splits_word_after_line_feed:
  "getExcerpt parse_plain (\<lambda>t. t) (U ''hello'' @ [10] @ U ''world'') 8 = U ''hello'' @ [10] @ U ''wo...''
   \<and> excerpt_text parse_plain (\<lambda>t. t) (U ''hello'' @ [10] @ U ''world'') = U ''hello'' @ [10] @ U ''world''
   \<and> is_js_space ((U ''hello'' @ [10] @ U ''world'') ! 5)"
  by (simp add: getExcerpt_def excerpt_text_def parse_eval trim_def more_marker_def)

section \<open>Image resolution\<close>

lemma findLocalImage_stages:
  "findLocalImage ex u m =
     first_result [stage_exact m u, stage_size_suffix m u, stage_basename m u, stage_disk ex u]"
proof -
  have f: "(\<lambda>(key, val). basename (before_query key) = basename (before_query u))
         = (\<lambda>kv. basename (before_query (fst kv)) = basename (before_query u))"
    by auto
  show ?thesis
    unfolding findLocalImage_def stage_exact_def stage_size_suffix_def stage_basename_def
      stage_disk_def normalize_protocol_def Let_def f
    by (auto split: option.splits)
qed

lemma first_result_None: "first_result rs = None \<longleftrightarrow> (\<forall>r \<in> set rs. r = None)"
  by (induction rs rule: first_result.induct) auto

text \<open>
  C4.  The first two stages read the map with \<open>imageMap[key]\<close>, which also
  finds what every object inherits.  For the source \<open>constructor\<close>, an image
  map without any entry and an images directory without any file, all four
  stages of the claim fail: the map has no key to match exactly, without a
  size suffix or by basename, and the directory has no file of that name.
  The code still gives a result, the inherited property, where the claim
  gives \<open>null\<close>; the third stage, which goes through \<open>Object.entries\<close>, sees
  the entries of the map only.
\<close>

theorem findLocalImage_inherited_property:
  "findLocalImage (\<lambda>name. False) (U ''constructor'') [] = Some (Inherited (U ''constructor''))
   \<and> stage_basename [] (U ''constructor'') = None
   \<and> stage_disk (\<lambda>name. False) (U ''constructor'') = None"
  by (simp add: findLocalImage_def truthy_lookup_def get_property_def object_prototype_keys_def
      stage_basename_def stage_disk_def)
     (simp add: U_def)
section \<open>Dates\<close>

lemma show_nat_digits: "list_all is_digit (show_nat n)"
proof (induction n rule: less_induct)
  case (less n)
  show ?case
  proof (cases "n < 10")
    case True
    then show ?thesis by (subst show_nat.simps) (simp add: is_digit_def)
  next
    case False
    then have "n div 10 < n" by simp
    moreover have "is_digit (48 + n mod 10)" by (simp add: is_digit_def)
    ultimately show ?thesis using less [of "n div 10"] False
      by (subst show_nat.simps) simp
  qed
qed

lemma show_nat_nonempty: "show_nat n \<noteq> []"
  by (subst show_nat.simps) simp

lemma digits_value_snoc: "digits_value (ds @ [c]) = 10 * digits_value ds + (c - 48)"
  by (simp add: digits_value_def)

lemma digits_value_show: "digits_value (show_nat n) = n"
proof (induction n rule: less_induct)
  case (less n)
  show ?case
  proof (cases "n < 10")
    case True
    then show ?thesis by (subst show_nat.simps) (simp add: digits_value_def)
  next
    case False
    then have "n div 10 < n" by simp
    from less [OF this] False show ?thesis
      by (subst show_nat.simps) (simp add: digits_value_snoc)
  qed
qed

lemma digit_not_space: "is_digit c \<Longrightarrow> \<not> is_js_space c"
  by (auto simp: is_digit_def is_js_space_def)

lemma takeWhile_all: "list_all P xs \<Longrightarrow> takeWhile P xs = xs"
  by (induction xs) auto

lemma parseInt_show: "parseInt (show_nat n) = Some (int n)"
proof -
  obtain c cs where s: "show_nat n = c # cs" using show_nat_nonempty [of n] by (cases "show_nat n") auto
  have all: "list_all is_digit (c # cs)" using show_nat_digits [of n] s by simp
  then have c: "is_digit c" by simp
  then have "\<not> is_js_space c" "c \<noteq> 45" "c \<noteq> 43" by (auto simp: is_digit_def is_js_space_def)
  then show ?thesis
    using takeWhile_all [OF all] digits_value_show [of n]
    by (simp add: parseInt_def s Let_def)
qed

lemma split_ws_word: "\<forall>c \<in> set a. \<not> is_js_space c \<Longrightarrow> split_ws g a = [a]"
  by (induction a arbitrary: g) auto

lemma split_ws_first:
  "a \<noteq> [] \<Longrightarrow> \<forall>c \<in> set a. \<not> is_js_space c \<Longrightarrow> split_ws g (a @ 32 # r) = a # split_ws True r"
proof (induction a arbitrary: g)
  case Nil then show ?case by simp
next
  case (Cons c a)
  show ?case
  proof (cases "a = []")
    case True
    with Cons.prems show ?thesis by (simp add: is_js_space_def)
  next
    case False
    with Cons show ?thesis by simp
  qed
qed

lemma trim_id: "s \<noteq> [] \<Longrightarrow> \<not> is_js_space (hd s) \<Longrightarrow> \<not> is_js_space (last s) \<Longrightarrow> trim s = s"
proof -
  assume a: "s \<noteq> []" "\<not> is_js_space (hd s)" "\<not> is_js_space (last s)"
  then have 1: "dropWhile is_js_space s = s" by (cases s) auto
  from a have "dropWhile is_js_space (rev s) = rev s" by (cases "rev s") (auto simp: last_rev [symmetric] hd_rev)
  with 1 show ?thesis by (simp add: trim_def)
qed

lemma month_facts:
  "(m, name) \<in> set FRENCH_MONTHS \<Longrightarrow>
     name \<noteq> [] \<and> (\<forall>c \<in> set name. \<not> is_js_space c) \<and> toLowerCase name = name
     \<and> map_of FRENCH_MONTH_TO_NUM name = Some m \<and> 1 \<le> m \<and> m \<le> 12
     \<and> map_of FRENCH_MONTHS m = Some name"
  unfolding FRENCH_MONTHS_def FRENCH_MONTH_TO_NUM_def
  by (elim disjE | simp only: set_simps insert_iff empty_iff prod.inject)+
     (simp_all add: U_def toLowerCase_def lower_unit_def is_js_space_def)

lemma days_in_month_bounds: "28 \<le> days_in_month y m \<and> days_in_month y m \<le> 31"
  by (simp add: days_in_month_def)

lemma days_before_month_bounds: "0 \<le> days_before_month y m \<and> days_before_month y m \<le> 31 * int m"
proof (induction m)
  case 0 then show ?case by (simp add: days_before_month_def)
next
  case (Suc m)
  have "days_before_month y (Suc m) = days_before_month y m + days_in_month y m"
    by (simp add: days_before_month_def)
  with Suc days_in_month_bounds [of y m] show ?case by simp
qed

lemma day_sum_bounds:
  fixes y a b c ra rb rc :: int
  assumes a: "4 * a + ra = y - 1969" and b: "100 * b + rb = y - 1901" and c: "400 * c + rc = y - 1601"
   and r: "0 \<le> ra" "ra < 4" "0 \<le> rb" "rb < 100" "0 \<le> rc" "rc < 400" and y: "100 \<le> y" "y \<le> 275759"
  shows "- 700000 \<le> 365 * (y - 1970) + a - b + c \<and> 365 * (y - 1970) + a - b + c \<le> 99999400"
proof -
  define D where "D = 365 * (y - 1970) + a - b + c"
  have a1: "4 * a \<le> y - 1969" "y - 1972 \<le> 4 * a" using a r by simp_all
  have b1: "100 * b \<le> y - 1901" "y - 2000 \<le> 100 * b" using b r by simp_all
  have c1: "400 * c \<le> y - 1601" "y - 2000 \<le> 400 * c" using c r by simp_all
  have e: "400 * D = 146000 * (y - 1970) + 100 * (4 * a) - 4 * (100 * b) + 400 * c"
    by (simp add: D_def)
  have u1: "100 * (4 * a) \<le> 100 * (y - 1969)" using a1(1) by (rule mult_left_mono) simp
  have u2: "4 * (y - 2000) \<le> 4 * (100 * b)" using b1(2) by (rule mult_left_mono) simp
  have l1: "100 * (y - 1972) \<le> 100 * (4 * a)" using a1(2) by (rule mult_left_mono) simp
  have l2: "4 * (100 * b) \<le> 4 * (y - 1901)" using b1(1) by (rule mult_left_mono) simp
  have "400 * D \<le> 146000 * (y - 1970) + 100 * (y - 1969) - 4 * (y - 2000) + (y - 1601)"
    unfolding e using u1 u2 c1(1) by simp
  also have "\<dots> = 146097 * y - 287810501" by simp
  also have "\<dots> \<le> 146097 * 275759 - 287810501" using y(2) by simp
  finally have up: "D \<le> 99999400" by simp
  have "146000 * (y - 1970) + 100 * (y - 1972) - 4 * (y - 1901) + (y - 2000) \<le> 400 * D"
    unfolding e using l1 l2 c1(2) by simp
  moreover have "146000 * (y - 1970) + 100 * (y - 1972) - 4 * (y - 1901) + (y - 2000) = 146097 * y - 287811596" by simp
  moreover have "146097 * 100 - 287811596 \<le> 146097 * y - 287811596" using y(1) by simp
  ultimately have lo: "- 700000 \<le> D" by simp
  from up lo show ?thesis by (simp add: D_def)
qed

lemma DayFromYear_bounds:
  assumes "100 \<le> y" "y \<le> 275759"
  shows "- 700000 \<le> DayFromYear y \<and> DayFromYear y \<le> 99999400"
proof -
  have d: "DayFromYear y
      = 365 * (y - 1970) + (y - 1969) div 4 - (y - 1901) div 100 + (y - 1601) div 400"
    by (simp add: DayFromYear_def)
  show ?thesis
    unfolding d
    by (rule day_sum_bounds [OF mult_div_mod_eq mult_div_mod_eq mult_div_mod_eq _ _ _ _ _ _ assms])
       simp_all
qed

lemma roll_date_id: "1 \<le> d \<Longrightarrow> d \<le> days_in_month y m \<Longrightarrow> roll_date y m d = (y, m, d)"
  by (subst roll_date.simps) simp

lemma new_Date_valid:
  assumes "100 \<le> y" "y \<le> 275759" "m \<le> 11" "1 \<le> d" "d \<le> days_in_month y m"
  shows "new_Date y m d = ValidDate (MakeDay y m d * msPerDay) y m d"
proof -
  from days_before_month_bounds [of y m] assms(3)
  have b: "0 \<le> days_before_month y m" "days_before_month y m \<le> 341" by auto
  from assms(4,5) days_in_month_bounds [of y m] have d: "1 \<le> d" "d \<le> 31" by auto
  from DayFromYear_bounds [OF assms(1,2)] b d
  have "- 100000000 \<le> MakeDay y m d" "MakeDay y m d \<le> 100000000"
    by (auto simp: MakeDay_def)
  then have "\<bar>MakeDay y m d * msPerDay\<bar> \<le> 8640000000000000"
    by (simp add: msPerDay_def abs_le_iff)
  with assms show ?thesis
    by (simp add: new_Date_def Let_def roll_date_id)
qed

lemma show_int_nat: "show_int (int n) = show_nat n"
  by (simp add: show_int_def)

lemma date_parts:
  assumes "(m, name) \<in> set FRENCH_MONTHS"
  shows "split_ws False (trim (show_nat d @ [32] @ name @ [32] @ show_nat y)) = [show_nat d, name, show_nat y]"
proof -
  let ?s = "show_nat d @ [32] @ name @ [32] @ show_nat y"
  from month_facts [OF assms] have n: "name \<noteq> []" "\<forall>c \<in> set name. \<not> is_js_space c" by auto
  have dg: "\<And>k. \<forall>c \<in> set (show_nat k). \<not> is_js_space c"
    using show_nat_digits digit_not_space by (auto simp: list_all_iff)
  have hd: "hd ?s = hd (show_nat d)" using show_nat_nonempty [of d] by simp
  have lst: "last ?s = last (show_nat y)" using show_nat_nonempty [of y] by simp
  have "\<not> is_js_space (hd ?s)" unfolding hd using dg [of d] show_nat_nonempty [of d] by simp
  moreover have "\<not> is_js_space (last ?s)" unfolding lst using dg [of y] show_nat_nonempty [of y] by simp
  ultimately have t: "trim ?s = ?s" by (intro trim_id) simp_all
  have "split_ws False ?s = show_nat d # split_ws True (name @ 32 # show_nat y)"
    using split_ws_first [OF show_nat_nonempty dg, where g = False and r = "name @ 32 # show_nat y"] by simp
  also have "split_ws True (name @ 32 # show_nat y) = name # split_ws True (show_nat y)"
    by (rule split_ws_first [OF n])
  also have "split_ws True (show_nat y) = [show_nat y]" by (rule split_ws_word [OF dg])
  finally show ?thesis by (simp only: t)
qed

text \<open>
  C5.  For a day \<open>d\<close>, a month name of the table and a year \<open>y\<close> that
  form a date of the calendar (the day within the month, the year from 100 to
  275759, the range where \<open>Date\<close> takes the year as written and the time value
  is valid), formatting the parsed string \<open>d name y\<close> gives the string back.
\<close>

theorem french_date_round_trip:
  assumes "map_of FRENCH_MONTHS m = Some name"
    and "1 \<le> d" "int d \<le> days_in_month (int y) (m - 1)"
    and "100 \<le> y" "y \<le> 275759"
  shows "formatDate (parseFrenchDate (show_nat d @ U '' '' @ name @ U '' '' @ show_nat y))
       = show_nat d @ U '' '' @ name @ U '' '' @ show_nat y"
proof -
  have sp: "U '' '' = [32]" by (simp add: U_def)
  let ?s = "show_nat d @ [32] @ name @ [32] @ show_nat y"
  from assms(1) have mem: "(m, name) \<in> set FRENCH_MONTHS" by (rule map_of_SomeD)
  note mf = month_facts [OF mem]
  have ne: "?s \<noteq> []" by simp
  have parts: "split_ws False (trim ?s) = [show_nat d, name, show_nat y]" by (rule date_parts [OF mem])
  from mf have m: "1 \<le> m" "m \<le> 12" by auto
  have nd: "new_Date (int y) (m - 1) (int d) = ValidDate (MakeDay (int y) (m - 1) (int d) * msPerDay) (int y) (m - 1) (int d)"
    using assms m by (intro new_Date_valid) auto
  have p: "parseFrenchDate ?s = Some (ValidDate (MakeDay (int y) (m - 1) (int d) * msPerDay) (int y) (m - 1) (int d))"
    unfolding parseFrenchDate_def parts
    using mf assms(2,4) nd by (simp add: Let_def parseInt_show falsy_def get_property_def)
  have "formatDate (parseFrenchDate ?s) = ?s"
    unfolding p using m assms(1) by (simp add: formatDate_def show_int_nat sp)
  then show ?thesis by (simp only: sp)
qed

text \<open>The theorem at 5 mars 2020.\<close>

theorem french_date_round_trip_witness:
  "formatDate (parseFrenchDate (U ''5 mars 2020'')) = U ''5 mars 2020''"
proof -
  have a: "map_of FRENCH_MONTHS 3 = Some (U ''mars'')" by (simp add: FRENCH_MONTHS_def)
  have b: "int 5 \<le> days_in_month (int 2020) (3 - 1)" by (simp add: days_in_month_def)
  have s: "show_nat 5 = U ''5''" "show_nat 2020 = U ''2020''"
    by (simp_all add: show_nat.simps U_def)
  from french_date_round_trip [OF a _ b, simplified s] show ?thesis by (simp add: U_def)
qed


lemma month_table_own: "map_of FRENCH_MONTH_TO_NUM s = Some n \<Longrightarrow> s \<notin> set object_prototype_keys"
  by (auto simp: FRENCH_MONTH_TO_NUM_def FRENCH_MONTHS_def object_prototype_keys_def U_def
      split: if_splits)


text \<open>A month token that names an inherited property gives an invalid date.\<close>

lemma parse_inherited_month: "parseFrenchDate (U ''5 constructor 2020'') = Some InvalidDate"
proof -
  have p: "split_ws False (trim (U ''5 constructor 2020'')) = [U ''5'', U ''constructor'', U ''2020'']"
    by (simp add: trim_def U_def is_js_space_def)
  have l: "toLowerCase (U ''constructor'') = U ''constructor''"
    by (simp add: toLowerCase_def lower_unit_def U_def)
  have g: "get_property FRENCH_MONTH_TO_NUM (U ''constructor'') = Some (Inherited (U ''constructor''))"
    by (simp add: get_property_def FRENCH_MONTH_TO_NUM_def FRENCH_MONTHS_def object_prototype_keys_def)
       (simp add: U_def)
  have n: "parseInt (U ''5'') = Some 5" "parseInt (U ''2020'') = Some 2020"
    by (simp_all add: parseInt_def U_def is_js_space_def is_digit_def digits_value_def)
  have e: "U ''5 constructor 2020'' \<noteq> []" by (simp add: U_def)
  show ?thesis
    unfolding parseFrenchDate_def p by (simp add: e l g n falsy_def Let_def)
qed


lemma set_insert_by: "set (insert_by cmp x ys) = insert x (set ys)"
  by (induction ys) auto

lemma set_sort_by: "set (sort_by cmp xs) = set xs"
  by (induction xs) (auto simp: sort_by_def set_insert_by)




lemma loadAttachmentSlugs_cached:
  "loadAttachmentSlugs json (Some s) = (s, Some s)"
  by (simp add: loadAttachmentSlugs_def)

lemma filter_posts_cached:
  "filter_posts json (Some s) ps = filter (\<lambda>p. slug p \<notin> s) ps"
  by (induction ps) (auto simp: isBlogPost_def loadAttachmentSlugs_cached)

lemma filter_posts_filter:
  "filter_posts json None ps
   = filter (\<lambda>p. slug p \<notin> (case json of Some raw \<Rightarrow> set raw | None \<Rightarrow> {})) ps"
  by (cases ps) (auto simp: isBlogPost_def loadAttachmentSlugs_def filter_posts_cached Let_def)

lemma set_sort_posts: "set (sort_posts engine xs) = set xs"
  by (simp add: sort_posts_def set_sort_by)


lemma site_posts_set:
  "set (site_posts engine json data)
   = with_date ` {p \<in> set (posts data). slug p \<notin> (case json of Some raw \<Rightarrow> set raw | None \<Rightarrow> {})}"
  by (simp add: site_posts_def set_sort_posts filter_posts_filter)


lemma mars: "map_of FRENCH_MONTHS 3 = Some (U ''mars'')"
  by (simp add: FRENCH_MONTHS_def)




lemma with_date_fields:
  "slug (with_date p) = slug p"
  "parsedDate (with_date p) = parseFrenchDate (date p)"
  "sort_key (with_date p)
   = (case parseFrenchDate (date p) of
        None \<Rightarrow> Some 0 | Some InvalidDate \<Rightarrow> None | Some (ValidDate t y m d) \<Rightarrow> Some t)"
  by (simp_all add: with_date_def sort_key_def Let_def)





section \<open>The exclusion list\<close>

lemma filter_posts_attachment:
  "filter_posts json None ps = filter (\<lambda>p. slug p \<notin> attachment_slugs json) ps"
  by (simp add: filter_posts_filter attachment_slugs_def)

lemma site_posts_slugs: "q \<in> set (site_posts engine json data) \<Longrightarrow> slug q \<notin> attachment_slugs json"
  by (auto simp: site_posts_def set_sort_posts filter_posts_attachment with_date_fields)

lemma site_posts_without:
  assumes "s \<in> attachment_slugs json"
  shows "site_posts engine json (data\<lparr>posts := filter (\<lambda>q. slug q \<noteq> s) (posts data)\<rparr>) = site_posts engine json data"
proof -
  have "filter (\<lambda>p. slug p \<notin> attachment_slugs json) (filter (\<lambda>q. slug q \<noteq> s) (posts data))
      = filter (\<lambda>p. slug p \<notin> attachment_slugs json) (posts data)"
    using assms by (induction "posts data") (auto intro: filter_cong)
  then show ?thesis by (simp add: site_posts_def filter_posts_attachment)
qed

lemma option_list_Some:
  "option_list xs = Some ys \<Longrightarrow> xs = map Some ys"
  by (induction xs arbitrary: ys) (auto split: option.splits)

lemma main_pages:
  assumes "main parse decode native ex engine json data = Some out"
  shows "map fst (post_pages out) = map slug (site_posts engine json data)"
    and "homepage out = generateHomepage parse decode (site_posts engine json data)"
    and "sitemap out = sitemap_xml (site_posts engine json data)"
proof -
  let ?ps = "site_posts engine json data"
  from assms obtain pages where
    p: "option_list (map (post_page_at parse decode native ex (image_map data) ?ps) [0 ..< length ?ps]) = Some pages"
    and out: "out = \<lparr>post_pages = pages, homepage = generateHomepage parse decode ?ps, sitemap = sitemap_xml ?ps\<rparr>"
    by (auto simp: main_def Let_def split: option.splits)
  from option_list_Some [OF p]
  have e: "map (post_page_at parse decode native ex (image_map data) ?ps) [0 ..< length ?ps] = map Some pages" .
  then have len: "length pages = length ?ps" by (metis length_map length_upt minus_nat.diff_0)
  have "fst (pages ! i) = slug (?ps ! i)" if "i < length ?ps" for i
  proof -
    from e that len have "post_page_at parse decode native ex (image_map data) ?ps i = Some (pages ! i)"
      by (metis add_0 nth_map nth_upt length_map)
    then show ?thesis by (auto simp: post_page_at_def Let_def dest: arg_cong [where f = fst])
  qed
  with len have "map fst pages = map slug ?ps" by (auto intro: nth_equalityI)
  with out show "map fst (post_pages out) = map slug ?ps"
    and "homepage out = generateHomepage parse decode ?ps"
    and "sitemap out = sitemap_xml ?ps"
    by simp_all
qed

text \<open>
  C8.  A post whose slug is in the exclusion list is not among the posts that
  the generator renders: no post page is written under its slug, and the
  homepage and the sitemap are built from the rendered posts only, one list
  item and one \<open>url\<close> entry for each.  The whole output is the one the
  generator gives for the dataset without the posts of that slug.
\<close>

theorem attachment_posts_excluded:
  assumes "s \<in> attachment_slugs json"
  shows "(\<forall>q \<in> set (site_posts engine json data). slug q \<noteq> s)
       \<and> (\<forall>out. main parse decode native ex engine json data = Some out \<longrightarrow>
             s \<notin> fst ` set (post_pages out)
             \<and> homepage out = generateHomepage parse decode (site_posts engine json data)
             \<and> sitemap out = sitemap_xml (site_posts engine json data))
       \<and> main parse decode native ex engine json data
           = main parse decode native ex engine json (data\<lparr>posts := filter (\<lambda>q. slug q \<noteq> s) (posts data)\<rparr>)"
proof -
  have a: "\<forall>q \<in> set (site_posts engine json data). slug q \<noteq> s"
    using assms site_posts_slugs by blast
  have b: "s \<notin> fst ` set (post_pages out)
         \<and> homepage out = generateHomepage parse decode (site_posts engine json data)
         \<and> sitemap out = sitemap_xml (site_posts engine json data)"
    if "main parse decode native ex engine json data = Some out" for out
  proof -
    from main_pages(1) [OF that] have "fst ` set (post_pages out) = slug ` set (site_posts engine json data)"
      by (metis set_map)
    with a main_pages(2,3) [OF that] show ?thesis by auto
  qed
  have c: "main parse decode native ex engine json data
           = main parse decode native ex engine json (data\<lparr>posts := filter (\<lambda>q. slug q \<noteq> s) (posts data)\<rparr>)"
    by (simp add: main_def site_posts_without [OF assms])
  from a b c show ?thesis by blast
qed

text \<open>The theorem at two posts, the second one excluded.\<close>

theorem attachment_posts_excluded_witness:
  "map slug (site_posts (\<lambda>ps p. 0) (Some [U ''sans-date'']) \<lparr>posts = [sample_post, undated_post], image_map = []\<rparr>)
     = [U ''un'']
   \<and> main parse_plain (\<lambda>t. t) (\<lambda>k. k) (\<lambda>n. False) (\<lambda>ps p. 0) (Some [U ''sans-date''])
         \<lparr>posts = [sample_post, undated_post], image_map = []\<rparr>
     = main parse_plain (\<lambda>t. t) (\<lambda>k. k) (\<lambda>n. False) (\<lambda>ps p. 0) (Some [U ''sans-date''])
         \<lparr>posts = [sample_post], image_map = []\<rparr>
   \<and> main parse_plain (\<lambda>t. t) (\<lambda>k. k) (\<lambda>n. False) (\<lambda>ps p. 0) (Some [U ''sans-date''])
         \<lparr>posts = [sample_post, undated_post], image_map = []\<rparr> \<noteq> None"
proof -
  let ?json = "Some [U ''sans-date'']"
  let ?data = "\<lparr>posts = [sample_post, undated_post], image_map = []\<rparr>"
  have s: "slug sample_post = U ''un''" "slug undated_post = U ''sans-date''"
    "content_html sample_post = U ''<p>Bonjour</p>''"
    by (simp_all add: sample_post_def undated_post_def)
  have ne: "U ''un'' \<noteq> U ''sans-date''" by (simp add: U_def)
  have a: "U ''sans-date'' \<in> attachment_slugs ?json" by (simp add: attachment_slugs_def)
  have "filter_posts ?json None [sample_post, undated_post]
      = filter (\<lambda>p. slug p \<notin> attachment_slugs ?json) [sample_post, undated_post]"
    by (rule filter_posts_attachment)
  then have fp: "filter_posts ?json None [sample_post, undated_post] = [sample_post]"
    by (simp add: attachment_slugs_def s ne)
  have ps: "site_posts (\<lambda>ps p. 0) ?json ?data = [with_date sample_post]"
    unfolding site_posts_def by (simp only: postData.select_convs fp) (simp add: sort_posts_def sort_by_def)
  have f: "?data\<lparr>posts := filter (\<lambda>q. slug q \<noteq> U ''sans-date'') (posts ?data)\<rparr>
         = \<lparr>posts = [sample_post], image_map = []\<rparr>"
    by (simp add: s ne)
  have c: "content_html (with_date sample_post) = U ''<p>Bonjour</p>''"
    by (simp add: with_date_def Let_def s)
  have m: "main parse_plain (\<lambda>t. t) (\<lambda>k. k) (\<lambda>n. False) (\<lambda>ps p. 0) ?json ?data \<noteq> None"
    by (simp add: main_def ps post_page_at_def generatePostPage_def c clean_bonjour Let_def)
  note T = attachment_posts_excluded [OF a, where data = ?data and parse = parse_plain
      and decode = "\<lambda>t. t" and native = "\<lambda>k. k" and ex = "\<lambda>n. False" and engine = "\<lambda>ps p. 0"]
  from T have "main parse_plain (\<lambda>t. t) (\<lambda>k. k) (\<lambda>n. False) (\<lambda>ps p. 0) ?json ?data
     = main parse_plain (\<lambda>t. t) (\<lambda>k. k) (\<lambda>n. False) (\<lambda>ps p. 0) ?json
         (?data\<lparr>posts := filter (\<lambda>q. slug q \<noteq> U ''sans-date'') (posts ?data)\<rparr>)"
    by blast
  then have e: "main parse_plain (\<lambda>t. t) (\<lambda>k. k) (\<lambda>n. False) (\<lambda>ps p. 0) ?json ?data
     = main parse_plain (\<lambda>t. t) (\<lambda>k. k) (\<lambda>n. False) (\<lambda>ps p. 0) ?json \<lparr>posts = [sample_post], image_map = []\<rparr>"
    by (simp only: f)
  from ps e m show ?thesis by (simp add: with_date_fields s)
qed

section \<open>Content cleaning and the images directory\<close>

lemma findLocalImage_directory:
  "ex1 (clean_name (basename (before_query u))) = ex2 (clean_name (basename (before_query u)))
   \<Longrightarrow> findLocalImage ex1 u m = findLocalImage ex2 u m"
  by (simp add: findLocalImage_stages stage_disk_def)

lemma findLocalImage_map_only:
  "first_result [stage_exact m u, stage_size_suffix m u, stage_basename m u] \<noteq> None
   \<Longrightarrow> findLocalImage ex1 u m = findLocalImage ex2 u m"
  by (cases "stage_exact m u"; cases "stage_size_suffix m u"; cases "stage_basename m u")
     (simp_all add: findLocalImage_stages)

lemma cleanContentHtml_directory:
  assumes "\<forall>n. ex1 (clean_name n) = ex2 (clean_name n)"
  shows "cleanContentHtml parse decode native ex1 h m = cleanContentHtml parse decode native ex2 h m"
proof -
  have "findLocalImage ex1 u m' = findLocalImage ex2 u m'" for u m'
    using assms by (intro findLocalImage_directory) simp
  then have f: "findLocalImage ex1 = findLocalImage ex2" by (intro ext)
  have i: "fix_image decode native ex1 = fix_image decode native ex2"
    unfolding fix_image_def f by (rule refl)
  have l: "fix_images decode native ex1 m' is st = fix_images decode native ex2 m' is st" for m' "is" st
    by (induction "is" arbitrary: st) (simp_all add: i split: option.splits)
  then have l': "fix_images decode native ex1 = fix_images decode native ex2" by (intro ext)
  have t: "clean_tree decode native ex1 = clean_tree decode native ex2"
    unfolding clean_tree_def l' by (rule refl)
  show ?thesis unfolding cleanContentHtml_def t by (rule refl)
qed

text \<open>
  C1, as the code has it.  The cleaned markup is a function of the HTML, the
  image map and the set of sanitised file names present in the output images
  directory: two states of the directory that agree on these names give the
  same output.  The directory is consulted for an image only when the three
  stages on the image map fail, and then only about the sanitised basename of
  its source.
\<close>

theorem cleaning_reads_directory_names_only:
  "((\<forall>n. ex1 (clean_name n) = ex2 (clean_name n)) \<longrightarrow>
      cleanContentHtml parse decode native ex1 h m = cleanContentHtml parse decode native ex2 h m)
   \<and> (first_result [stage_exact m u, stage_size_suffix m u, stage_basename m u] \<noteq> None \<longrightarrow>
        findLocalImage ex1 u m = findLocalImage ex2 u m)
   \<and> (ex1 (clean_name (basename (before_query u))) = ex2 (clean_name (basename (before_query u))) \<longrightarrow>
        findLocalImage ex1 u m = findLocalImage ex2 u m)"
  using cleanContentHtml_directory [of ex1 ex2 parse decode native h m]
    findLocalImage_map_only [of m u ex1 ex2] findLocalImage_directory [of ex1 u ex2 m]
  by blast

lemma parse_img_x:
  \<open>parse_plain (U ''<img src="x.jpg">'')
   = [Element 0 (U ''img'') \<lparr>rawAttrs = U ''src="x.jpg"'', rawAttributes = [(U ''src'', U ''x.jpg'')]\<rparr> []]\<close>
  by (simp add: parse_eval)

lemma clean_img_missing:
  \<open>cleanContentHtml parse_plain (\<lambda>t. t) (\<lambda>k. k) (\<lambda>n. False) (U ''<img src="x.jpg">'') [] = Some []\<close>
proof -
  let ?img = \<open>Element (Suc 0) (U ''img'')
                \<lparr>rawAttrs = U ''src="x.jpg"'', rawAttributes = [(U ''src'', U ''x.jpg'')]\<rparr> []\<close>
  let ?st = "\<lparr>attached = [?img], detached = []\<rparr>"
  have n: \<open>U ''<img src="x.jpg">'' \<noteq> []\<close> by (simp add: U_def)
  have r: \<open>fst (number_nodes 1 (parse_plain (U ''<img src="x.jpg">''))) = [?img]\<close>
    by (simp add: parse_img_x)
  have q: "querySelector (is_entry_content (\<lambda>t. t)) [?img] = None"
    by (simp add: dom_eval)
  have a: "lookup ?st (Suc 0) = Some ?img" by (simp add: lookup_def)
  have g: "getAttribute (\<lambda>t. t) (U ''src'') ?img = U ''x.jpg''" by (simp add: dom_eval)
  have e: "U ''x.jpg'' \<noteq> []" by (simp add: U_def)
  have f: "findLocalImage (\<lambda>n. False) (U ''x.jpg'') [] = None" by (simp add: image_eval)
  have i: "fix_image (\<lambda>t. t) (\<lambda>k. k) (\<lambda>n. False) [] (Suc 0) ?st = Some \<lparr>attached = [], detached = [?img]\<rparr>"
    unfolding fix_image_unresolved [OF a g e f] by (simp add: dom_eval)
  have t: "clean_tree (\<lambda>t. t) (\<lambda>k. k) (\<lambda>n. False) [] [?img] = Some \<lparr>attached = [], detached = [?img]\<rparr>"
  proof (rule clean_tree_steps [where ?st1.0 = ?st and ?st2.0 = ?st and ?st3.0 = ?st
        and ?st4.0 = "\<lparr>attached = [], detached = [?img]\<rparr>"])
    show "fix_images (\<lambda>t. t) (\<lambda>k. k) (\<lambda>n. False) [] (ids (querySelectorAll (has_tag (U ''img'')) (attached ?st))) ?st
        = Some \<lparr>attached = [], detached = [?img]\<rparr>"
      by (simp add: querySelectorAll_def ids_def List.map_filter_def has_tag_def i)
  qed (simp_all add: dom_eval)
  have h: "trim (clean_up (innerHTML [])) = []" by (simp add: html_eval)
  show ?thesis
    using cleanContentHtml_fragment [where parse = parse_plain, OF n, unfolded r, OF q t]
    by (simp add: h)
qed

lemma clean_img_present:
  \<open>cleanContentHtml parse_plain (\<lambda>t. t) (\<lambda>k. k) (\<lambda>n. n = U ''x.jpg'') (U ''<img src="x.jpg">'') []
   = Some (U ''<img src="/images/x.jpg">'')\<close>
proof -
  let ?img = \<open>Element (Suc 0) (U ''img'')
                \<lparr>rawAttrs = U ''src="x.jpg"'', rawAttributes = [(U ''src'', U ''x.jpg'')]\<rparr> []\<close>
  let ?img' = \<open>Element (Suc 0) (U ''img'')
                \<lparr>rawAttrs = U ''src="/images/x.jpg"'', rawAttributes = [(U ''src'', U ''/images/x.jpg'')]\<rparr> []\<close>
  let ?st = "\<lparr>attached = [?img], detached = []\<rparr>"
  let ?st2 = "\<lparr>attached = [?img'], detached = []\<rparr>"
  have n: \<open>U ''<img src="x.jpg">'' \<noteq> []\<close> by (simp add: U_def)
  have r: \<open>fst (number_nodes 1 (parse_plain (U ''<img src="x.jpg">''))) = [?img]\<close>
    by (simp add: parse_img_x)
  have q: "querySelector (is_entry_content (\<lambda>t. t)) [?img] = None"
    by (simp add: dom_eval)
  have a: "lookup ?st (Suc 0) = Some ?img" by (simp add: lookup_def)
  have g: "getAttribute (\<lambda>t. t) (U ''src'') ?img = U ''x.jpg''" by (simp add: dom_eval)
  have e: "U ''x.jpg'' \<noteq> []" "Own (U ''x.jpg'') \<noteq> Own []" by (simp_all add: U_def)
  have f: "findLocalImage (\<lambda>n. n = U ''x.jpg'') (U ''x.jpg'') [] = Some (Own (U ''x.jpg''))"
    by (simp add: image_eval)
  have u: "fold (\<lambda>attr. update_node (Suc 0) (removeAttribute attr)) wp_attributes
             (update_node (Suc 0)
                (setAttribute (U ''src'') (U ''/images/'' @ property_text (\<lambda>k. k) (Own (U ''x.jpg'')))) ?st)
           = ?st2"
    by (simp add: attr_eval)
  have c: "closest (U ''a'') ?st2 (Suc 0) = None" by (simp add: dom_eval)
  have i: "fix_image (\<lambda>t. t) (\<lambda>k. k) (\<lambda>n. n = U ''x.jpg'') [] (Suc 0) ?st = Some ?st2"
    by (simp only: fix_image_resolved [OF a g e(1) f e(2) u] c option.case)
  have t: "clean_tree (\<lambda>t. t) (\<lambda>k. k) (\<lambda>n. n = U ''x.jpg'') [] [?img] = Some ?st2"
  proof (rule clean_tree_steps [where ?st1.0 = ?st and ?st2.0 = ?st and ?st3.0 = ?st and ?st4.0 = ?st2])
    show "fix_images (\<lambda>t. t) (\<lambda>k. k) (\<lambda>n. n = U ''x.jpg'') []
            (ids (querySelectorAll (has_tag (U ''img'')) (attached ?st))) ?st = Some ?st2"
      by (simp add: querySelectorAll_def ids_def List.map_filter_def has_tag_def i)
  qed (simp_all add: dom_eval)
  have h: \<open>trim (clean_up (innerHTML [?img'])) = U ''<img src="/images/x.jpg">''\<close>
    by (simp add: html_eval)
  show ?thesis
    using cleanContentHtml_fragment [where parse = parse_plain, OF n, unfolded r, OF q t]
    by (simp add: h)
qed

text \<open>The theorem at an image that is not in the map, and two directories without its file.\<close>

theorem cleaning_reads_directory_names_only_witness:
  \<open>cleanContentHtml parse_plain (\<lambda>t. t) (\<lambda>k. k) (\<lambda>n. n = U ''y/z'') (U ''<img src="x.jpg">'') [] = Some []\<close>
proof -
  have "clean_name n \<noteq> U ''y/z''" for n
  proof
    assume "clean_name n = U ''y/z''"
    then have "47 \<in> set (clean_name n)" by (simp add: U_def)
    then show False by (auto simp: clean_name_def is_word_def split: if_splits)
  qed
  then have "\<forall>n. (clean_name n = U ''y/z'') = False" by simp
  with cleaning_reads_directory_names_only [where ?ex1.0 = "\<lambda>n. n = U ''y/z''" and ?ex2.0 = "\<lambda>n. False"
      and parse = parse_plain and decode = "\<lambda>t. t" and native = "\<lambda>k. k"
      and h = \<open>U ''<img src="x.jpg">''\<close> and m = "[]"]
  have "cleanContentHtml parse_plain (\<lambda>t. t) (\<lambda>k. k) (\<lambda>n. n = U ''y/z'') (U ''<img src=\"x.jpg\">'') []
      = cleanContentHtml parse_plain (\<lambda>t. t) (\<lambda>k. k) (\<lambda>n. False) (U ''<img src=\"x.jpg\">'') []"
    by blast
  then show ?thesis by (simp add: clean_img_missing)
qed

text \<open>
  C1 as stated fails: with the same HTML and the same image map the output
  depends on the output images directory.  An image that the map does not
  know is dropped when the directory has no file of its name and kept when it
  has one.
\<close>

theorem cleaning_depends_on_directory:
  \<open>cleanContentHtml parse_plain (\<lambda>t. t) (\<lambda>k. k) (\<lambda>n. False) (U ''<img src="x.jpg">'') [] = Some []
   \<and> cleanContentHtml parse_plain (\<lambda>t. t) (\<lambda>k. k) (\<lambda>n. n = U ''x.jpg'') (U ''<img src="x.jpg">'') []
       = Some (U ''<img src="/images/x.jpg">'')\<close>
  using clean_img_missing clean_img_present by blast


end
